theory Spec2Isabelle
  imports Main "HOL-Library.Word" "HOL-Library.Signed_Division"
begin

unbundle bit_operations_syntax

section \<open>Protocol types and constants\<close>

text \<open>
  The window manager of \<^verbatim>\<open>lwm.cpp\<close> is one class, \<^verbatim>\<open>WM\<close>, driven by X11 events
  through XCB. Identifiers, atoms and key symbols are 32-bit protocol values, key codes
  are 8 bits, coordinates on the wire are signed 16-bit and sizes unsigned 16-bit.
  The C type \<^verbatim>\<open>int\<close> is modelled by \<open>int\<close>: every \<^verbatim>\<open>int\<close> the class stores is
  copied from a 16-bit protocol field, and the sums of at most three such values that
  the code forms cannot leave the 32-bit range. \<^verbatim>\<open>size_t\<close> is \<open>nat\<close>.
\<close>

type_synonym xcb_window_t = "32 word"
type_synonym xcb_atom_t = "32 word"
type_synonym xcb_keysym_t = "32 word"
type_synonym xcb_keycode_t = "8 word"

abbreviation XCB_NONE :: xcb_window_t where "XCB_NONE \<equiv> 0"
abbreviation XCB_INPUT_FOCUS_POINTER_ROOT :: xcb_window_t where "XCB_INPUT_FOCUS_POINTER_ROOT \<equiv> 1"

text \<open>Key symbols of \<^verbatim>\<open>X11/keysymdef.h\<close> and the modifier masks of \<^verbatim>\<open>xproto.h\<close>.\<close>

abbreviation XK_BackSpace :: xcb_keysym_t where "XK_BackSpace \<equiv> 0xff08"
abbreviation XK_Tab :: xcb_keysym_t where "XK_Tab \<equiv> 0xff09"
abbreviation XK_Return :: xcb_keysym_t where "XK_Return \<equiv> 0xff0d"
abbreviation XK_Escape :: xcb_keysym_t where "XK_Escape \<equiv> 0xff1b"
abbreviation XK_N :: xcb_keysym_t where "XK_N \<equiv> 0x4e"
abbreviation XK_Y :: xcb_keysym_t where "XK_Y \<equiv> 0x59"
abbreviation XK_e :: xcb_keysym_t where "XK_e \<equiv> 0x65"
abbreviation XK_f :: xcb_keysym_t where "XK_f \<equiv> 0x66"
abbreviation XK_i :: xcb_keysym_t where "XK_i \<equiv> 0x69"
abbreviation XK_m :: xcb_keysym_t where "XK_m \<equiv> 0x6d"
abbreviation XK_n :: xcb_keysym_t where "XK_n \<equiv> 0x6e"
abbreviation XK_q :: xcb_keysym_t where "XK_q \<equiv> 0x71"
abbreviation XK_r :: xcb_keysym_t where "XK_r \<equiv> 0x72"
abbreviation XK_y :: xcb_keysym_t where "XK_y \<equiv> 0x79"

abbreviation XCB_MOD_MASK_SHIFT :: "16 word" where "XCB_MOD_MASK_SHIFT \<equiv> 1"
abbreviation XCB_MOD_MASK_LOCK :: "16 word" where "XCB_MOD_MASK_LOCK \<equiv> 2"
abbreviation XCB_MOD_MASK_1 :: "16 word" where "XCB_MOD_MASK_1 \<equiv> 8"
abbreviation XCB_MOD_MASK_2 :: "16 word" where "XCB_MOD_MASK_2 \<equiv> 16"

abbreviation XCB_CONFIG_WINDOW_X :: "16 word" where "XCB_CONFIG_WINDOW_X \<equiv> 1"
abbreviation XCB_CONFIG_WINDOW_Y :: "16 word" where "XCB_CONFIG_WINDOW_Y \<equiv> 2"
abbreviation XCB_CONFIG_WINDOW_WIDTH :: "16 word" where "XCB_CONFIG_WINDOW_WIDTH \<equiv> 4"
abbreviation XCB_CONFIG_WINDOW_HEIGHT :: "16 word" where "XCB_CONFIG_WINDOW_HEIGHT \<equiv> 8"
abbreviation XCB_CONFIG_WINDOW_BORDER_WIDTH :: "16 word" where "XCB_CONFIG_WINDOW_BORDER_WIDTH \<equiv> 16"
abbreviation XCB_CONFIG_WINDOW_SIBLING :: "16 word" where "XCB_CONFIG_WINDOW_SIBLING \<equiv> 32"
abbreviation XCB_CONFIG_WINDOW_STACK_MODE :: "16 word" where "XCB_CONFIG_WINDOW_STACK_MODE \<equiv> 64"
abbreviation XCB_STACK_MODE_ABOVE :: "32 word" where "XCB_STACK_MODE_ABOVE \<equiv> 0"

text \<open>The constants of the source file itself.\<close>

abbreviation SNAP_THRESHOLD :: int where "SNAP_THRESHOLD \<equiv> 10"
abbreviation RUNNER_WIDTH :: "16 word" where "RUNNER_WIDTH \<equiv> 300"
abbreviation RUNNER_HEIGHT :: "16 word" where "RUNNER_HEIGHT \<equiv> 50"

section \<open>The X server as seen through the connection\<close>

text \<open>
  The server is the collaborator behind \<^verbatim>\<open>m_conn\<close>. Its model keeps what the window
  manager reads back: for every existing window its geometry, map state,
  override-redirect flag and the two properties the code queries; the input focus; the
  identifier that \<^verbatim>\<open>xcb_generate_id\<close> hands out next; and the synthetic events and
  text lines the window manager has sent. A request that names a window the server does
  not have is answered with an error that the code never inspects, so it changes
  nothing; a query about such a window has no reply. The stacking order, border widths,
  window titles, event masks, grabs and pixels are not tracked: requests that only
  touch those leave the model unchanged.
\<close>

datatype xcb_map_state_t =
  XCB_MAP_STATE_UNMAPPED | XCB_MAP_STATE_UNVIEWABLE | XCB_MAP_STATE_VIEWABLE

record xwindow =
  geom_x :: "16 word"
  geom_y :: "16 word"
  geom_width :: "16 word"
  geom_height :: "16 word"
  map_state :: xcb_map_state_t
  override_redirect :: bool
  net_wm_state :: "xcb_atom_t list"
  wm_protocols :: "xcb_atom_t list option"

datatype synthetic_event =
    SentDeleteWindow
  | SentExpose "16 word" "16 word"
  | SentConfigureNotify int int "16 word" "16 word"

record xserver =
  srv_windows :: "xcb_window_t \<rightharpoonup> xwindow"
  srv_root :: xcb_window_t
  srv_focus :: xcb_window_t
  srv_next_xid :: xcb_window_t
  srv_sent :: "(xcb_window_t \<times> synthetic_event) list"
  srv_drawn :: "(xcb_window_t \<times> string) list"

definition xcb_generate_id :: "xserver \<Rightarrow> xcb_window_t \<times> xserver" where
  "xcb_generate_id c = (srv_next_xid c, c\<lparr>srv_next_xid := srv_next_xid c + 1\<rparr>)"

definition xcb_create_window ::
  "xserver \<Rightarrow> xcb_window_t \<Rightarrow> 16 word \<Rightarrow> 16 word \<Rightarrow> 16 word \<Rightarrow> 16 word \<Rightarrow> xserver" where
  "xcb_create_window c wid x y width height =
     c\<lparr>srv_windows := (srv_windows c)(wid \<mapsto>
         \<lparr>geom_x = x, geom_y = y, geom_width = width, geom_height = height,
          map_state = XCB_MAP_STATE_UNMAPPED, override_redirect = False,
          net_wm_state = [], wm_protocols = None\<rparr>)\<rparr>"

definition xcb_map_window :: "xserver \<Rightarrow> xcb_window_t \<Rightarrow> xserver" where
  "xcb_map_window c w =
     (case srv_windows c w of
        None \<Rightarrow> c
      | Some xw \<Rightarrow> c\<lparr>srv_windows := (srv_windows c)(w \<mapsto> xw\<lparr>map_state := XCB_MAP_STATE_VIEWABLE\<rparr>)\<rparr>)"

text \<open>
  Every focus the code sets names \<^verbatim>\<open>XCB_INPUT_FOCUS_POINTER_ROOT\<close> as the place the
  focus reverts to when the focused window stops being viewable.
\<close>

definition revert_focus :: "xserver \<Rightarrow> xcb_window_t \<Rightarrow> xserver" where
  "revert_focus c w =
     (if srv_focus c = w then c\<lparr>srv_focus := XCB_INPUT_FOCUS_POINTER_ROOT\<rparr> else c)"

definition xcb_unmap_window :: "xserver \<Rightarrow> xcb_window_t \<Rightarrow> xserver" where
  "xcb_unmap_window c w =
     (case srv_windows c w of
        None \<Rightarrow> c
      | Some xw \<Rightarrow>
          revert_focus
            (c\<lparr>srv_windows := (srv_windows c)(w \<mapsto> xw\<lparr>map_state := XCB_MAP_STATE_UNMAPPED\<rparr>)\<rparr>) w)"

definition xcb_destroy_window :: "xserver \<Rightarrow> xcb_window_t \<Rightarrow> xserver" where
  "xcb_destroy_window c w =
     (case srv_windows c w of
        None \<Rightarrow> c
      | Some xw \<Rightarrow> revert_focus (c\<lparr>srv_windows := (srv_windows c)(w := None)\<rparr>) w)"

definition xcb_set_input_focus :: "xserver \<Rightarrow> xcb_window_t \<Rightarrow> xserver" where
  "xcb_set_input_focus c w =
     (case srv_windows c w of
        None \<Rightarrow> c
      | Some xw \<Rightarrow> if map_state xw = XCB_MAP_STATE_VIEWABLE then c\<lparr>srv_focus := w\<rparr> else c)"

text \<open>
  \<^verbatim>\<open>xcb_configure_window\<close> reads its value list in the order of the mask bits. The
  server keeps the low 16 bits of a position or size.
\<close>

definition take_value :: "16 word \<Rightarrow> 16 word \<Rightarrow> 32 word list \<Rightarrow> 32 word option \<times> 32 word list" where
  "take_value value_mask b vals =
     (if value_mask AND b = 0 then (None, vals)
      else case vals of [] \<Rightarrow> (None, []) | v # rest \<Rightarrow> (Some v, rest))"

definition xcb_configure_window ::
  "xserver \<Rightarrow> xcb_window_t \<Rightarrow> 16 word \<Rightarrow> 32 word list \<Rightarrow> xserver" where
  "xcb_configure_window c w value_mask vals =
     (case srv_windows c w of
        None \<Rightarrow> c
      | Some xw \<Rightarrow>
          let (vx, r1) = take_value value_mask XCB_CONFIG_WINDOW_X vals;
              (vy, r2) = take_value value_mask XCB_CONFIG_WINDOW_Y r1;
              (vw, r3) = take_value value_mask XCB_CONFIG_WINDOW_WIDTH r2;
              (vh, r4) = take_value value_mask XCB_CONFIG_WINDOW_HEIGHT r3;
              xw1 = (case vx of None \<Rightarrow> xw | Some v \<Rightarrow> xw\<lparr>geom_x := ucast v\<rparr>);
              xw2 = (case vy of None \<Rightarrow> xw1 | Some v \<Rightarrow> xw1\<lparr>geom_y := ucast v\<rparr>);
              xw3 = (case vw of None \<Rightarrow> xw2 | Some v \<Rightarrow> xw2\<lparr>geom_width := ucast v\<rparr>);
              xw4 = (case vh of None \<Rightarrow> xw3 | Some v \<Rightarrow> xw3\<lparr>geom_height := ucast v\<rparr>)
          in c\<lparr>srv_windows := (srv_windows c)(w \<mapsto> xw4)\<rparr>)"

definition xcb_send_event :: "xserver \<Rightarrow> xcb_window_t \<Rightarrow> synthetic_event \<Rightarrow> xserver" where
  "xcb_send_event c w e = c\<lparr>srv_sent := srv_sent c @ [(w, e)]\<rparr>"

text \<open>
  \<^verbatim>\<open>xcb_ewmh_set_wm_state(ewmh, w, list_len, list)\<close> replaces the whole
  \<^verbatim>\<open>_NET_WM_STATE\<close> property of the window by the first \<^verbatim>\<open>list_len\<close> atoms.
\<close>

definition xcb_ewmh_set_wm_state :: "xserver \<Rightarrow> xcb_window_t \<Rightarrow> xcb_atom_t list \<Rightarrow> xserver" where
  "xcb_ewmh_set_wm_state c w atoms =
     (case srv_windows c w of
        None \<Rightarrow> c
      | Some xw \<Rightarrow> c\<lparr>srv_windows := (srv_windows c)(w \<mapsto> xw\<lparr>net_wm_state := atoms\<rparr>)\<rparr>)"

text \<open>
  The replies the code waits for. A query about a window the server does not have
  yields a null reply. The reply to \<^verbatim>\<open>xcb_get_input_focus\<close> is lost only when the
  connection breaks, which is not modelled.
\<close>

definition xcb_get_geometry_reply :: "xserver \<Rightarrow> xcb_window_t \<Rightarrow> xwindow option" where
  "xcb_get_geometry_reply c w = srv_windows c w"

definition xcb_get_window_attributes_reply :: "xserver \<Rightarrow> xcb_window_t \<Rightarrow> xwindow option" where
  "xcb_get_window_attributes_reply c w = srv_windows c w"

definition xcb_get_property_reply :: "xserver \<Rightarrow> xcb_window_t \<Rightarrow> xcb_atom_t list option" where
  "xcb_get_property_reply c w =
     (case srv_windows c w of None \<Rightarrow> None | Some xw \<Rightarrow> Some (net_wm_state xw))"

definition xcb_icccm_get_wm_protocols_reply :: "xserver \<Rightarrow> xcb_window_t \<Rightarrow> xcb_atom_t list option" where
  "xcb_icccm_get_wm_protocols_reply c w =
     (case srv_windows c w of None \<Rightarrow> None | Some xw \<Rightarrow> wm_protocols xw)"

section \<open>The state of the window manager\<close>

record WindowGeometry =
  wg_x :: int
  wg_y :: int
  wg_width :: "16 word"
  wg_height :: "16 word"

record MoveStart =
  mv_window :: xcb_window_t
  mv_start_x :: int
  mv_start_y :: int
  mv_orig_x :: int
  mv_orig_y :: int

record ResizeStart =
  rs_window :: xcb_window_t
  rs_start_x :: int
  rs_start_y :: int
  rs_start_width :: "16 word"
  rs_start_height :: "16 word"

text \<open>
  The fields of class \<^verbatim>\<open>WM\<close> under their own names. \<^verbatim>\<open>m_keysyms\<close> is the keyboard
  table (key code and column to key symbol). The two \<open>os_\<close> fields stand for the
  operating system: whether \<^verbatim>\<open>fork\<close> succeeds, and the command lines handed to
  \<^verbatim>\<open>/bin/sh -c\<close> in a detached child so far.
\<close>

record WM =
  m_conn :: xserver
  m_keysyms :: "xcb_keycode_t \<Rightarrow> nat \<Rightarrow> xcb_keysym_t"
  m_screenWidth :: int
  m_screenHeight :: int
  m_windowList :: "xcb_window_t list"
  m_currentWindowIndex :: nat
  m_isRunnerActive :: bool
  m_runnerWindow :: xcb_window_t
  m_runnerInput :: string
  m_isExitConfirmationActive :: bool
  m_exitConfirmationWindow :: xcb_window_t
  m_isHelpActive :: bool
  m_helpWindow :: xcb_window_t
  m_geometryCache :: "xcb_window_t \<rightharpoonup> WindowGeometry"
  m_originalGeometry :: "xcb_window_t \<rightharpoonup> WindowGeometry"
  m_minimizedWindows :: "xcb_window_t list"
  moveStart :: MoveStart
  resizeStart :: ResizeStart
  WM_PROTOCOLS :: xcb_atom_t
  WM_DELETE_WINDOW :: xcb_atom_t
  NET_WM_STATE_FULLSCREEN :: xcb_atom_t
  NET_ACTIVE_WINDOW :: xcb_atom_t
  os_fork_ok :: bool
  os_spawned :: "string list"

text \<open>\<^verbatim>\<open>std::exit(0)\<close> ends the process; every other path returns to the event loop.\<close>

datatype process = Exited int | Running WM

text \<open>The event structures, with the fields the handlers read.\<close>

record xcb_key_press_event_t =
  kp_detail :: xcb_keycode_t
  kp_state :: "16 word"

record xcb_button_press_event_t =
  bp_detail :: "8 word"
  bp_state :: "16 word"
  bp_event :: xcb_window_t
  bp_child :: xcb_window_t
  bp_root_x :: "16 word"
  bp_root_y :: "16 word"

record xcb_motion_notify_event_t =
  mn_root_x :: "16 word"
  mn_root_y :: "16 word"

record xcb_configure_request_event_t =
  cr_window :: xcb_window_t
  cr_value_mask :: "16 word"
  cr_x :: "16 word"
  cr_y :: "16 word"
  cr_width :: "16 word"
  cr_height :: "16 word"
  cr_border_width :: "16 word"
  cr_sibling :: xcb_window_t
  cr_stack_mode :: "8 word"

record xcb_expose_event_t =
  ex_window :: xcb_window_t
  ex_width :: "16 word"
  ex_height :: "16 word"

record xcb_client_message_event_t =
  cm_window :: xcb_window_t
  cm_type :: xcb_atom_t
  cm_data32_0 :: "32 word"
  cm_data32_1 :: "32 word"

datatype xcb_generic_event_t =
    XCB_KEY_PRESS xcb_key_press_event_t
  | XCB_BUTTON_PRESS xcb_button_press_event_t
  | XCB_MOTION_NOTIFY xcb_motion_notify_event_t
  | XCB_BUTTON_RELEASE
  | XCB_MAP_REQUEST xcb_window_t
  | XCB_DESTROY_NOTIFY xcb_window_t
  | XCB_UNMAP_NOTIFY xcb_window_t
  | XCB_CONFIGURE_REQUEST xcb_configure_request_event_t
  | XCB_EXPOSE xcb_expose_event_t
  | XCB_CLIENT_MESSAGE xcb_client_message_event_t
  | XCB_ENTER_NOTIFY xcb_window_t
  | XCB_OTHER_EVENT "8 word"

section \<open>Geometry cache, focus and cyclic traversal\<close>

definition invalidateGeometryCache :: "WM \<Rightarrow> xcb_window_t \<Rightarrow> WM" where
  "invalidateGeometryCache s w = s\<lparr>m_geometryCache := (m_geometryCache s)(w := None)\<rparr>"

definition getWindowGeometry :: "WM \<Rightarrow> xcb_window_t \<Rightarrow> WindowGeometry \<times> WM" where
  "getWindowGeometry s w =
     (case m_geometryCache s w of
        Some g \<Rightarrow> (g, s)
      | None \<Rightarrow>
          (case xcb_get_geometry_reply (m_conn s) w of
             None \<Rightarrow> (\<lparr>wg_x = 0, wg_y = 0, wg_width = 100, wg_height = 100\<rparr>, s)
           | Some geom \<Rightarrow>
               let wg = \<lparr>wg_x = sint (geom_x geom), wg_y = sint (geom_y geom),
                         wg_width = geom_width geom, wg_height = geom_height geom\<rparr>
               in (wg, s\<lparr>m_geometryCache := (m_geometryCache s)(w \<mapsto> wg)\<rparr>)))"

definition focusWindow :: "WM \<Rightarrow> xcb_window_t \<Rightarrow> WM" where
  "focusWindow s w =
     (if w = XCB_NONE then s
      else
        let c1 = xcb_configure_window (m_conn s) w XCB_CONFIG_WINDOW_STACK_MODE [XCB_STACK_MODE_ABOVE];
            c2 = xcb_map_window c1 w;
            c3 = xcb_set_input_focus c2 w
        in s\<lparr>m_conn := c3\<rparr>)"

text \<open>
  The loop of \<^verbatim>\<open>focusNextWindow\<close> runs \<^verbatim>\<open>i\<close> from 0 to \<^verbatim>\<open>sz - 1\<close>; the first argument
  counts the iterations that remain. The result also lists, in order, the windows whose
  attributes the loop asked the server for.
\<close>

fun focusNextWindow_loop :: "nat \<Rightarrow> WM \<Rightarrow> xcb_window_t list \<times> WM" where
  "focusNextWindow_loop 0 s = ([], s)"
| "focusNextWindow_loop (Suc n) s =
     (let sz = length (m_windowList s);
          s1 = s\<lparr>m_currentWindowIndex := (m_currentWindowIndex s + 1) mod sz\<rparr>;
          w = m_windowList s1 ! m_currentWindowIndex s1;
          ar = xcb_get_window_attributes_reply (m_conn s1) w
      in if (case ar of None \<Rightarrow> False | Some a \<Rightarrow> map_state a = XCB_MAP_STATE_VIEWABLE)
         then ([w], focusWindow s1 w)
         else (let (examined, s2) = focusNextWindow_loop n s1 in (w # examined, s2)))"

definition focusNextWindow_examined :: "WM \<Rightarrow> xcb_window_t list" where
  "focusNextWindow_examined s =
     (if m_windowList s = [] then []
      else fst (focusNextWindow_loop (length (m_windowList s)) s))"

definition focusNextWindow :: "WM \<Rightarrow> WM" where
  "focusNextWindow s =
     (if m_windowList s = [] then s
      else snd (focusNextWindow_loop (length (m_windowList s)) s))"

definition resetFocus :: "WM \<Rightarrow> WM" where
  "resetFocus s =
     (if m_windowList s \<noteq> [] then focusWindow s (last (m_windowList s))
      else s\<lparr>m_conn := xcb_set_input_focus (m_conn s) (srv_root (m_conn s))\<rparr>)"

section \<open>The gesture controller\<close>

definition dialog_click :: "WM \<Rightarrow> xcb_window_t \<Rightarrow> bool" where
  "dialog_click s e =
     ((m_isExitConfirmationActive s \<and> e = m_exitConfirmationWindow s) \<or>
      (m_isRunnerActive s \<and> e = m_runnerWindow s) \<or>
      (m_isHelpActive s \<and> e = m_helpWindow s))"

definition handleButtonPress :: "WM \<Rightarrow> xcb_button_press_event_t \<Rightarrow> WM" where
  "handleButtonPress s ev =
     (if dialog_click s (bp_event ev) then s
      else if bp_state ev AND XCB_MOD_MASK_1 = 0 then s
      else if bp_child ev = XCB_NONE then s
      else
        let w = bp_child ev;
            (geom, s1) = getWindowGeometry s w
        in if bp_detail ev = 1 then
             s1\<lparr>moveStart := \<lparr>mv_window = w, mv_start_x = sint (bp_root_x ev),
                               mv_start_y = sint (bp_root_y ev),
                               mv_orig_x = wg_x geom, mv_orig_y = wg_y geom\<rparr>\<rparr>
           else if bp_detail ev = 3 then
             s1\<lparr>resizeStart := \<lparr>rs_window = w, rs_start_x = sint (bp_root_x ev),
                                 rs_start_y = sint (bp_root_y ev),
                                 rs_start_width = wg_width geom,
                                 rs_start_height = wg_height geom\<rparr>\<rparr>
           else s1)"

definition handleMotionNotify :: "WM \<Rightarrow> xcb_motion_notify_event_t \<Rightarrow> WM" where
  "handleMotionNotify s ev =
     (if mv_window (moveStart s) \<noteq> XCB_NONE then
        let dx = sint (mn_root_x ev) - mv_start_x (moveStart s);
            dy = sint (mn_root_y ev) - mv_start_y (moveStart s);
            newX = mv_orig_x (moveStart s) + dx;
            newY = mv_orig_y (moveStart s) + dy;
            (winGeom, s1) = getWindowGeometry s (mv_window (moveStart s));
            newX1 = (if \<bar>newX\<bar> < SNAP_THRESHOLD then 0 else newX);
            newY1 = (if \<bar>newY\<bar> < SNAP_THRESHOLD then 0 else newY);
            newX2 = (if \<bar>(newX1 + uint (wg_width winGeom)) - m_screenWidth s1\<bar> < SNAP_THRESHOLD
                     then m_screenWidth s1 - uint (wg_width winGeom) else newX1);
            newY2 = (if \<bar>(newY1 + uint (wg_height winGeom)) - m_screenHeight s1\<bar> < SNAP_THRESHOLD
                     then m_screenHeight s1 - uint (wg_height winGeom) else newY1);
            vals = [word_of_int newX2, word_of_int newY2];
            s2 = s1\<lparr>m_conn := xcb_configure_window (m_conn s1) (mv_window (moveStart s1))
                                  (XCB_CONFIG_WINDOW_X OR XCB_CONFIG_WINDOW_Y) vals\<rparr>
        in invalidateGeometryCache s2 (mv_window (moveStart s2))
      else if rs_window (resizeStart s) \<noteq> XCB_NONE then
        let dx = sint (mn_root_x ev) - rs_start_x (resizeStart s);
            dy = sint (mn_root_y ev) - rs_start_y (resizeStart s);
            nw = (word_of_int (max (uint (rs_start_width (resizeStart s)) + dx) 50) :: 16 word);
            nh = (word_of_int (max (uint (rs_start_height (resizeStart s)) + dy) 50) :: 16 word);
            vals = [ucast nw, ucast nh];
            s1 = s\<lparr>m_conn := xcb_configure_window (m_conn s) (rs_window (resizeStart s))
                                 (XCB_CONFIG_WINDOW_WIDTH OR XCB_CONFIG_WINDOW_HEIGHT) vals\<rparr>
        in invalidateGeometryCache s1 (rs_window (resizeStart s1))
      else s)"

definition handleButtonRelease :: "WM \<Rightarrow> WM" where
  "handleButtonRelease s =
     s\<lparr>moveStart := \<lparr>mv_window = XCB_NONE, mv_start_x = 0, mv_start_y = 0,
                      mv_orig_x = 0, mv_orig_y = 0\<rparr>,
       resizeStart := \<lparr>rs_window = XCB_NONE, rs_start_x = 0, rs_start_y = 0,
                        rs_start_width = 0, rs_start_height = 0\<rparr>\<rparr>"

section \<open>The fullscreen manager\<close>

abbreviation XCB_CONFIG_WINDOW_XYWH :: "16 word" where
  "XCB_CONFIG_WINDOW_XYWH \<equiv>
     XCB_CONFIG_WINDOW_X OR XCB_CONFIG_WINDOW_Y OR XCB_CONFIG_WINDOW_WIDTH OR XCB_CONFIG_WINDOW_HEIGHT"

definition toggleFullscreen :: "WM \<Rightarrow> xcb_window_t \<Rightarrow> WM" where
  "toggleFullscreen s w =
     (if w = XCB_NONE then s
      else
        let isFS = (case xcb_get_property_reply (m_conn s) w of
                      None \<Rightarrow> False
                    | Some states \<Rightarrow> NET_WM_STATE_FULLSCREEN s \<in> set states);
            s3 = (if \<not> isFS then
                    let (g, s1) = getWindowGeometry s w;
                        s2 = s1\<lparr>m_originalGeometry := (m_originalGeometry s1)(w \<mapsto> g)\<rparr>;
                        c1 = xcb_ewmh_set_wm_state (m_conn s2) w [NET_WM_STATE_FULLSCREEN s2];
                        c2 = xcb_configure_window c1 w XCB_CONFIG_WINDOW_XYWH
                               [0, 0, word_of_int (m_screenWidth s2), word_of_int (m_screenHeight s2)]
                    in s2\<lparr>m_conn := c2\<rparr>
                  else
                    let s1 = (case m_originalGeometry s w of
                                None \<Rightarrow> s
                              | Some g \<Rightarrow>
                                  s\<lparr>m_conn := xcb_configure_window (m_conn s) w XCB_CONFIG_WINDOW_XYWH
                                                 [word_of_int (wg_x g), word_of_int (wg_y g),
                                                  ucast (wg_width g), ucast (wg_height g)],
                                    m_originalGeometry := (m_originalGeometry s)(w := None)\<rparr>)
                    in s1\<lparr>m_conn := xcb_ewmh_set_wm_state (m_conn s1) w []\<rparr>)
        in invalidateGeometryCache s3 w)"

section \<open>The dialogs\<close>

text \<open>
  \<^verbatim>\<open>createPopUpWindow\<close> and \<^verbatim>\<open>destroyPopUpWindow\<close> take references to one dialog's
  window field and active flag. A value of \<open>dialog\<close> names the pair that is passed.
\<close>

datatype dialog = RunnerDialog | ExitConfirmationDialog | HelpDialog

fun winVar :: "dialog \<Rightarrow> WM \<Rightarrow> xcb_window_t" where
  "winVar RunnerDialog s = m_runnerWindow s"
| "winVar ExitConfirmationDialog s = m_exitConfirmationWindow s"
| "winVar HelpDialog s = m_helpWindow s"

fun activeFlag :: "dialog \<Rightarrow> WM \<Rightarrow> bool" where
  "activeFlag RunnerDialog s = m_isRunnerActive s"
| "activeFlag ExitConfirmationDialog s = m_isExitConfirmationActive s"
| "activeFlag HelpDialog s = m_isHelpActive s"

fun set_winVar :: "dialog \<Rightarrow> xcb_window_t \<Rightarrow> WM \<Rightarrow> WM" where
  "set_winVar RunnerDialog w s = s\<lparr>m_runnerWindow := w\<rparr>"
| "set_winVar ExitConfirmationDialog w s = s\<lparr>m_exitConfirmationWindow := w\<rparr>"
| "set_winVar HelpDialog w s = s\<lparr>m_helpWindow := w\<rparr>"

fun set_activeFlag :: "dialog \<Rightarrow> bool \<Rightarrow> WM \<Rightarrow> WM" where
  "set_activeFlag RunnerDialog b s = s\<lparr>m_isRunnerActive := b\<rparr>"
| "set_activeFlag ExitConfirmationDialog b s = s\<lparr>m_isExitConfirmationActive := b\<rparr>"
| "set_activeFlag HelpDialog b s = s\<lparr>m_isHelpActive := b\<rparr>"

text \<open>
  The popup is centred with C's integer division, which truncates towards zero
  (\<open>sdiv\<close>); the position is passed as a signed 16-bit argument. The title
  parameter only sets the \<^verbatim>\<open>WM_NAME\<close> property, which is not tracked, and is left out.
\<close>

definition createPopUpWindow :: "WM \<Rightarrow> dialog \<Rightarrow> 16 word \<Rightarrow> 16 word \<Rightarrow> WM" where
  "createPopUpWindow s d width height =
     (if activeFlag d s then s
      else
        let s1 = set_activeFlag d True s;
            (wid, c1) = xcb_generate_id (m_conn s1);
            s2 = set_winVar d wid (s1\<lparr>m_conn := c1\<rparr>);
            x = (m_screenWidth s2 - uint width) sdiv 2;
            y = (m_screenHeight s2 - uint height) sdiv 2;
            c2 = xcb_create_window (m_conn s2) (winVar d s2) (word_of_int x) (word_of_int y) width height;
            c3 = xcb_map_window c2 (winVar d s2);
            s3 = s2\<lparr>m_conn := c3, m_windowList := m_windowList s2 @ [winVar d s2]\<rparr>;
            s4 = s3\<lparr>m_currentWindowIndex := length (m_windowList s3) - 1\<rparr>
        in focusWindow s4 (winVar d s4))"

definition destroyPopUpWindow :: "WM \<Rightarrow> dialog \<Rightarrow> WM" where
  "destroyPopUpWindow s d =
     (if \<not> activeFlag d s \<or> winVar d s = XCB_NONE then s
      else
        let c1 = xcb_unmap_window (m_conn s) (winVar d s);
            c2 = xcb_destroy_window c1 (winVar d s);
            s1 = s\<lparr>m_conn := c2\<rparr>;
            s2 = (if winVar d s1 \<in> set (m_windowList s1) then
                    let s' = s1\<lparr>m_windowList := remove1 (winVar d s1) (m_windowList s1)\<rparr>
                    in if m_currentWindowIndex s' \<ge> length (m_windowList s')
                       then s'\<lparr>m_currentWindowIndex := 0\<rparr> else s'
                  else s1);
            s3 = set_winVar d XCB_NONE s2;
            s4 = set_activeFlag d False s3
        in resetFocus s4)"

definition createExitConfirmationDialog :: "WM \<Rightarrow> WM" where
  "createExitConfirmationDialog s = createPopUpWindow s ExitConfirmationDialog 300 100"

definition destroyExitConfirmationDialog :: "WM \<Rightarrow> WM" where
  "destroyExitConfirmationDialog s = destroyPopUpWindow s ExitConfirmationDialog"

definition handleExitConfirmationKeypress :: "WM \<Rightarrow> xcb_keysym_t \<Rightarrow> process" where
  "handleExitConfirmationKeypress s ks =
     (if ks = XK_y \<or> ks = XK_Y then Exited 0
      else if ks = XK_n \<or> ks = XK_Escape then Running (destroyExitConfirmationDialog s)
      else Running s)"

definition createRunnerDialog :: "WM \<Rightarrow> WM" where
  "createRunnerDialog s =
     (createPopUpWindow s RunnerDialog RUNNER_WIDTH RUNNER_HEIGHT)\<lparr>m_runnerInput := []\<rparr>"

definition destroyRunnerDialog :: "WM \<Rightarrow> WM" where
  "destroyRunnerDialog s = (destroyPopUpWindow s RunnerDialog)\<lparr>m_runnerInput := []\<rparr>"

definition createHelpDialog :: "WM \<Rightarrow> WM" where
  "createHelpDialog s = createPopUpWindow s HelpDialog 400 240"

definition destroyHelpDialog :: "WM \<Rightarrow> WM" where
  "destroyHelpDialog s = destroyPopUpWindow s HelpDialog"

text \<open>
  \<^verbatim>\<open>executeCommand\<close>: nothing for an empty command; otherwise \<^verbatim>\<open>fork\<close>, and in the
  child \<^verbatim>\<open>execl("/bin/sh", "sh", "-c", cmd)\<close>. The logger does nothing, since
  \<^verbatim>\<open>DEBUG_LOGS\<close> is not defined.
\<close>

definition executeCommand :: "WM \<Rightarrow> string \<Rightarrow> WM" where
  "executeCommand s cmd =
     (if cmd = [] then s
      else if \<not> os_fork_ok s then s
      else s\<lparr>os_spawned := os_spawned s @ [cmd]\<rparr>)"

definition redrawRunnerDialog :: "WM \<Rightarrow> WM" where
  "redrawRunnerDialog s =
     (if \<not> m_isRunnerActive s \<or> m_runnerWindow s = XCB_NONE then s
      else s\<lparr>m_conn := xcb_send_event (m_conn s) (m_runnerWindow s)
                           (SentExpose RUNNER_WIDTH RUNNER_HEIGHT)\<rparr>)"

definition handleRunnerInput :: "WM \<Rightarrow> xcb_keysym_t \<Rightarrow> WM" where
  "handleRunnerInput s ks =
     (if ks = XK_Escape then destroyRunnerDialog s
      else if ks = XK_Return then destroyRunnerDialog (executeCommand s (m_runnerInput s))
      else if ks = XK_BackSpace then
        (if m_runnerInput s \<noteq> [] then
           redrawRunnerDialog (s\<lparr>m_runnerInput := butlast (m_runnerInput s)\<rparr>)
         else s)
      else
        (if ks \<ge> 32 \<and> ks \<le> 126 then
           redrawRunnerDialog (s\<lparr>m_runnerInput := m_runnerInput s @ [char_of (unat ks)]\<rparr>)
         else s))"

text \<open>
  Drawing. \<^verbatim>\<open>drawText\<close> allocates an identifier for the graphics context and one for
  the font, and hands the text to \<^verbatim>\<open>xcb_image_text_8\<close>, whose length argument is 8 bits
  wide, so the server draws the first \<^verbatim>\<open>strlen(text) mod 256\<close> characters. Only those
  text lines are recorded; fonts, colours and positions are not tracked.
\<close>

definition drawText :: "xserver \<Rightarrow> xcb_window_t \<Rightarrow> string \<Rightarrow> xserver" where
  "drawText c win txt =
     (let (gc, c1) = xcb_generate_id c;
          (font, c2) = xcb_generate_id c1
      in c2\<lparr>srv_drawn := srv_drawn c2 @ [(win, take (length txt mod 256) txt)]\<rparr>)"

definition help_lines :: "string list" where
  "help_lines =
     [''Alt+F          => Toggle fullscreen'',
      ''Alt+E          => Close focused window'',
      ''Alt+Q          => Exit confirmation dialog'',
      ''Alt+R          => Runner prompt'',
      ''Alt+Tab        => Focus next window'',
      ''Alt+I          => Help dialog'',
      ''Alt+M          => Minimize window'',
      ''Alt+N          => Restore all minimized'']"

text \<open>
  Each branch of \<^verbatim>\<open>handleExpose\<close> first allocates the identifier of the graphics
  context that fills the background.
\<close>

definition handleExpose :: "WM \<Rightarrow> xcb_expose_event_t \<Rightarrow> WM" where
  "handleExpose s ev =
     (let w = ex_window ev in
      if m_isRunnerActive s \<and> w = m_runnerWindow s then
        (let (bgGc, c1) = xcb_generate_id (m_conn s)
         in s\<lparr>m_conn := drawText c1 w (m_runnerInput s)\<rparr>)
      else if m_isExitConfirmationActive s \<and> w = m_exitConfirmationWindow s then
        (let (bgGc, c1) = xcb_generate_id (m_conn s)
         in s\<lparr>m_conn := drawText c1 w ''Exit WM? (Y/N or ESC)''\<rparr>)
      else if m_isHelpActive s \<and> w = m_helpWindow s then
        (let (bgGc, c1) = xcb_generate_id (m_conn s)
         in s\<lparr>m_conn := foldl (\<lambda>c l. drawText c w l) c1 help_lines\<rparr>)
      else s)"

section \<open>Key presses\<close>

definition getKeysym :: "WM \<Rightarrow> xcb_keycode_t \<Rightarrow> 16 word \<Rightarrow> xcb_keysym_t" where
  "getKeysym s code state0 =
     (let state1 = state0 AND NOT (XCB_MOD_MASK_LOCK OR XCB_MOD_MASK_2);
          col = (if state1 AND XCB_MOD_MASK_SHIFT \<noteq> 0 then 1 else 0)
      in m_keysyms s code col)"

definition getFocusedWindow :: "WM \<Rightarrow> xcb_window_t" where
  "getFocusedWindow s = srv_focus (m_conn s)"

text \<open>
  The branches of the \<^verbatim>\<open>switch\<close> in \<^verbatim>\<open>handleKeyPress\<close> that have a body of their
  own: \<^verbatim>\<open>case XK_e\<close> (close), \<^verbatim>\<open>case XK_m\<close> (minimize) and \<^verbatim>\<open>case XK_n\<close> (restore all).
\<close>

definition key_close :: "WM \<Rightarrow> xcb_window_t \<Rightarrow> WM" where
  "key_close s foc =
     (let pr = xcb_icccm_get_wm_protocols_reply (m_conn s) foc;
          hasWMDelete = (case pr of None \<Rightarrow> False | Some atoms \<Rightarrow> WM_DELETE_WINDOW s \<in> set atoms);
          c1 = (if hasWMDelete then xcb_send_event (m_conn s) foc SentDeleteWindow else m_conn s);
          c2 = (if \<not> hasWMDelete then xcb_destroy_window c1 foc else c1)
      in s\<lparr>m_conn := c2\<rparr>)"

definition key_minimize :: "WM \<Rightarrow> xcb_window_t \<Rightarrow> WM" where
  "key_minimize s foc =
     (if foc \<noteq> XCB_NONE \<and> foc \<noteq> m_runnerWindow s \<and>
         foc \<noteq> m_exitConfirmationWindow s \<and> foc \<noteq> m_helpWindow s
      then
        let s1 = (if foc \<in> set (m_windowList s)
                  then s\<lparr>m_windowList := remove1 foc (m_windowList s)\<rparr> else s);
            s2 = s1\<lparr>m_minimizedWindows := m_minimizedWindows s1 @ [foc]\<rparr>;
            s3 = s2\<lparr>m_conn := xcb_unmap_window (m_conn s2) foc\<rparr>
        in resetFocus s3
      else s)"

fun restore_loop :: "xcb_window_t list \<Rightarrow> WM \<Rightarrow> WM" where
  "restore_loop [] s = s"
| "restore_loop (w # ws) s =
     (let s1 = s\<lparr>m_conn := xcb_map_window (m_conn s) w\<rparr>;
          s2 = (if w \<notin> set (m_windowList s1)
                then s1\<lparr>m_windowList := m_windowList s1 @ [w]\<rparr> else s1)
      in restore_loop ws s2)"

definition key_restore :: "WM \<Rightarrow> WM" where
  "key_restore s =
     (let s1 = restore_loop (m_minimizedWindows s) s;
          s2 = s1\<lparr>m_minimizedWindows := []\<rparr>
      in if m_windowList s2 \<noteq> [] then focusWindow s2 (last (m_windowList s2)) else s2)"

definition key_chord :: "WM \<Rightarrow> xcb_keysym_t \<Rightarrow> xcb_window_t \<Rightarrow> WM" where
  "key_chord s ks foc =
     (if ks = XK_f then toggleFullscreen s foc
      else if ks = XK_e then key_close s foc
      else if ks = XK_q then createExitConfirmationDialog s
      else if ks = XK_r then createRunnerDialog s
      else if ks = XK_i then createHelpDialog s
      else if ks = XK_Tab then focusNextWindow s
      else if ks = XK_m then key_minimize s foc
      else if ks = XK_n then key_restore s
      else s)"

definition handleKeyPress :: "WM \<Rightarrow> xcb_key_press_event_t \<Rightarrow> process" where
  "handleKeyPress s ev =
     (let ks = getKeysym s (kp_detail ev) (kp_state ev) in
      if m_isExitConfirmationActive s then handleExitConfirmationKeypress s ks
      else if m_isRunnerActive s then Running (handleRunnerInput s ks)
      else if m_isHelpActive s then
        Running (if ks = XK_Escape then destroyHelpDialog s else s)
      else
        let altPressed = (kp_state ev AND XCB_MOD_MASK_1 \<noteq> 0);
            foc = getFocusedWindow s
        in if \<not> altPressed then Running s else Running (key_chord s ks foc))"

section \<open>Registry events and the dispatcher\<close>

definition handleMapRequest :: "WM \<Rightarrow> xcb_window_t \<Rightarrow> WM" where
  "handleMapRequest s w =
     (let attr = xcb_get_window_attributes_reply (m_conn s) w in
      if (case attr of None \<Rightarrow> False | Some a \<Rightarrow> override_redirect a) then
        s\<lparr>m_conn := xcb_map_window (m_conn s) w\<rparr>
      else
        let c1 = xcb_map_window (m_conn s) w;
            c2 = xcb_configure_window c1 w XCB_CONFIG_WINDOW_STACK_MODE [XCB_STACK_MODE_ABOVE];
            s1 = focusWindow (s\<lparr>m_conn := c2\<rparr>) w;
            s2 = (if w \<notin> set (m_windowList s1) then
                    let s' = s1\<lparr>m_windowList := m_windowList s1 @ [w]\<rparr>
                    in s'\<lparr>m_currentWindowIndex := length (m_windowList s') - 1\<rparr>
                  else s1);
            (g, s3) = getWindowGeometry s2 w
        in s3\<lparr>m_conn := xcb_send_event (m_conn s3) w
                             (SentConfigureNotify (wg_x g) (wg_y g) (wg_width g) (wg_height g))\<rparr>)"

definition handleDestroyNotify :: "WM \<Rightarrow> xcb_window_t \<Rightarrow> WM" where
  "handleDestroyNotify s w =
     (let s1 = (if w \<in> set (m_windowList s) then
                  let s' = s\<lparr>m_windowList := remove1 w (m_windowList s)\<rparr>
                  in if m_currentWindowIndex s' \<ge> length (m_windowList s')
                     then s'\<lparr>m_currentWindowIndex := 0\<rparr> else s'
                else s)
      in invalidateGeometryCache s1 w)"

definition handleUnmapNotify :: "WM \<Rightarrow> xcb_window_t \<Rightarrow> WM" where
  "handleUnmapNotify s w = s"

definition handleConfigureRequest :: "WM \<Rightarrow> xcb_configure_request_event_t \<Rightarrow> WM" where
  "handleConfigureRequest s cr =
     (let m = cr_value_mask cr;
          vals =
            (if m AND XCB_CONFIG_WINDOW_X \<noteq> 0 then [scast (cr_x cr)] else []) @
            (if m AND XCB_CONFIG_WINDOW_Y \<noteq> 0 then [scast (cr_y cr)] else []) @
            (if m AND XCB_CONFIG_WINDOW_WIDTH \<noteq> 0 then [ucast (cr_width cr)] else []) @
            (if m AND XCB_CONFIG_WINDOW_HEIGHT \<noteq> 0 then [ucast (cr_height cr)] else []) @
            (if m AND XCB_CONFIG_WINDOW_BORDER_WIDTH \<noteq> 0 then [ucast (cr_border_width cr)] else []) @
            (if m AND XCB_CONFIG_WINDOW_SIBLING \<noteq> 0 then [cr_sibling cr] else []) @
            (if m AND XCB_CONFIG_WINDOW_STACK_MODE \<noteq> 0 then [ucast (cr_stack_mode cr)] else []);
          s1 = s\<lparr>m_conn := xcb_configure_window (m_conn s) (cr_window cr) m vals\<rparr>
      in invalidateGeometryCache s1 (cr_window cr))"

definition handleClientMessage :: "WM \<Rightarrow> xcb_client_message_event_t \<Rightarrow> WM" where
  "handleClientMessage s cm =
     (if cm_type cm = WM_PROTOCOLS s \<and> cm_data32_0 cm = WM_DELETE_WINDOW s then
        s\<lparr>m_conn := xcb_destroy_window (m_conn s) (cm_window cm)\<rparr>
      else if cm_type cm = NET_ACTIVE_WINDOW s then
        (let w = cm_data32_1 cm in if w \<noteq> 0 then focusWindow s w else s)
      else s)"

definition handleEnterNotify :: "WM \<Rightarrow> xcb_window_t \<Rightarrow> WM" where
  "handleEnterNotify s e =
     (if e \<noteq> XCB_NONE then
        (if e \<in> set (m_windowList s) then focusWindow s e else s)
      else s)"

fun handle_event :: "WM \<Rightarrow> xcb_generic_event_t \<Rightarrow> process" where
  "handle_event s (XCB_KEY_PRESS ev) = handleKeyPress s ev"
| "handle_event s (XCB_BUTTON_PRESS ev) = Running (handleButtonPress s ev)"
| "handle_event s (XCB_MOTION_NOTIFY ev) = Running (handleMotionNotify s ev)"
| "handle_event s XCB_BUTTON_RELEASE = Running (handleButtonRelease s)"
| "handle_event s (XCB_MAP_REQUEST w) = Running (handleMapRequest s w)"
| "handle_event s (XCB_DESTROY_NOTIFY w) = Running (handleDestroyNotify s w)"
| "handle_event s (XCB_UNMAP_NOTIFY w) = Running (handleUnmapNotify s w)"
| "handle_event s (XCB_CONFIGURE_REQUEST cr) = Running (handleConfigureRequest s cr)"
| "handle_event s (XCB_EXPOSE ev) = Running (handleExpose s ev)"
| "handle_event s (XCB_CLIENT_MESSAGE cm) = Running (handleClientMessage s cm)"
| "handle_event s (XCB_ENTER_NOTIFY e) = Running (handleEnterNotify s e)"
| "handle_event s (XCB_OTHER_EVENT rt) = Running s"

text \<open>
  \<^verbatim>\<open>runEventLoop\<close> on the events the server delivers before the connection closes:
  the state when the loop ends, or the exit of the process.
\<close>

fun runEventLoop :: "WM \<Rightarrow> xcb_generic_event_t list \<Rightarrow> process" where
  "runEventLoop s [] = Running s"
| "runEventLoop s (e # es) =
     (case handle_event s e of Exited n \<Rightarrow> Exited n | Running s' \<Rightarrow> runEventLoop s' es)"

text \<open>
  The state after the constructor and a successful \<^verbatim>\<open>initialize\<close>: the member
  initialisers of the class, with the connection, keyboard table, screen size and
  interned atoms that the server supplied.
\<close>

definition WM_initial ::
  "xserver \<Rightarrow> (xcb_keycode_t \<Rightarrow> nat \<Rightarrow> xcb_keysym_t) \<Rightarrow> 16 word \<Rightarrow> 16 word \<Rightarrow>
   xcb_atom_t \<Rightarrow> xcb_atom_t \<Rightarrow> xcb_atom_t \<Rightarrow> xcb_atom_t \<Rightarrow> bool \<Rightarrow> WM" where
  "WM_initial c keysyms width_in_pixels height_in_pixels protocols delete_window fullscreen active fork_ok =
     \<lparr>m_conn = c, m_keysyms = keysyms,
      m_screenWidth = uint width_in_pixels, m_screenHeight = uint height_in_pixels,
      m_windowList = [], m_currentWindowIndex = 0,
      m_isRunnerActive = False, m_runnerWindow = XCB_NONE, m_runnerInput = [],
      m_isExitConfirmationActive = False, m_exitConfirmationWindow = XCB_NONE,
      m_isHelpActive = False, m_helpWindow = XCB_NONE,
      m_geometryCache = Map.empty, m_originalGeometry = Map.empty,
      m_minimizedWindows = [],
      moveStart = \<lparr>mv_window = XCB_NONE, mv_start_x = 0, mv_start_y = 0,
                    mv_orig_x = 0, mv_orig_y = 0\<rparr>,
      resizeStart = \<lparr>rs_window = XCB_NONE, rs_start_x = 0, rs_start_y = 0,
                      rs_start_width = 0, rs_start_height = 0\<rparr>,
      WM_PROTOCOLS = protocols, WM_DELETE_WINDOW = delete_window,
      NET_WM_STATE_FULLSCREEN = fullscreen, NET_ACTIVE_WINDOW = active,
      os_fork_ok = fork_ok, os_spawned = []\<rparr>"


section \<open>A concrete session\<close>

text \<open>
  A keyboard table with the usual key codes of a US layout (column 0 unshifted, column 1
  shifted; unknown codes give \<^verbatim>\<open>XCB_NO_SYMBOL\<close>), a server with three unmapped client
  windows on a 1920 by 1080 screen, and the window manager freshly initialised on it.
\<close>

definition us_keysyms :: "xcb_keycode_t \<Rightarrow> nat \<Rightarrow> xcb_keysym_t" where
  "us_keysyms code col =
     (case map_of
        [(9, (XK_Escape, XK_Escape)), (22, (XK_BackSpace, XK_BackSpace)),
         (23, (XK_Tab, XK_Tab)), (36, (XK_Return, XK_Return)),
         (24, (XK_q, 0x51)), (26, (XK_e, 0x45)), (27, (XK_r, 0x52)),
         (29, (XK_y, XK_Y)), (31, (XK_i, 0x49)), (39, (0x73, 0x53)),
         (41, (XK_f, 0x46)), (46, (0x6c, 0x4c)), (57, (XK_n, XK_N)),
         (58, (XK_m, 0x4d))] code of
        None \<Rightarrow> 0
      | Some (lower, upper) \<Rightarrow> if col = 0 then lower else upper)"

definition client_window :: "16 word \<Rightarrow> 16 word \<Rightarrow> 16 word \<Rightarrow> 16 word \<Rightarrow> xwindow" where
  "client_window x y w h =
     \<lparr>geom_x = x, geom_y = y, geom_width = w, geom_height = h,
      map_state = XCB_MAP_STATE_UNMAPPED, override_redirect = False,
      net_wm_state = [], wm_protocols = None\<rparr>"

abbreviation win_A :: xcb_window_t where "win_A \<equiv> 0x200001"
abbreviation win_B :: xcb_window_t where "win_B \<equiv> 0x400001"
abbreviation win_C :: xcb_window_t where "win_C \<equiv> 0x400002"

definition demo_server :: xserver where
  "demo_server =
     \<lparr>srv_windows = [win_A \<mapsto> client_window 0 0 200 200,
                     win_B \<mapsto> client_window 50 60 640 480,
                     win_C \<mapsto> client_window 0 0 1915 1000],
      srv_root = 0x100, srv_focus = XCB_INPUT_FOCUS_POINTER_ROOT,
      srv_next_xid = 0x600001, srv_sent = [], srv_drawn = []\<rparr>"

definition demo_wm :: WM where
  "demo_wm = WM_initial demo_server us_keysyms 1920 1080 300 301 302 303 True"

definition key :: "xcb_keycode_t \<Rightarrow> 16 word \<Rightarrow> xcb_generic_event_t" where
  "key code modifiers = XCB_KEY_PRESS \<lparr>kp_detail = code, kp_state = modifiers\<rparr>"

definition alt_press :: "8 word \<Rightarrow> xcb_window_t \<Rightarrow> 16 word \<Rightarrow> 16 word \<Rightarrow> xcb_button_press_event_t" where
  "alt_press button w x y =
     \<lparr>bp_detail = button, bp_state = XCB_MOD_MASK_1, bp_event = 0x100, bp_child = w,
      bp_root_x = x, bp_root_y = y\<rparr>"

definition demo_both_pressed :: WM where
  "demo_both_pressed =
     handleButtonPress (handleButtonPress demo_wm (alt_press 1 win_A 100 100))
       (alt_press 3 win_A 100 100)"

text \<open>The invariant of the registry that the specification states.\<close>

definition index_valid :: "WM \<Rightarrow> bool" where
  "index_valid s = (m_currentWindowIndex s < length (m_windowList s) \<or> m_windowList s = [])"

definition demo_runner_ls :: WM where
  "demo_runner_ls = handleRunnerInput (handleRunnerInput (createRunnerDialog demo_wm) 0x6c) 0x73"

text \<open>The geometry the window manager reads from a server window.\<close>

definition geometry_of :: "xwindow \<Rightarrow> WindowGeometry" where
  "geometry_of xw =
     \<lparr>wg_x = sint (geom_x xw), wg_y = sint (geom_y xw),
      wg_width = geom_width xw, wg_height = geom_height xw\<rparr>"




definition demo_mapped_AB :: WM where
  "demo_mapped_AB = handleMapRequest (handleMapRequest demo_wm win_A) win_B"

text \<open>
  A second server for the fullscreen scenario: the same clients and an override-redirect
  window, viewable and holding the input focus.
\<close>

abbreviation win_D :: xcb_window_t where "win_D \<equiv> 0x800001"

definition menu_server :: xserver where
  "menu_server =
     demo_server\<lparr>srv_windows := (srv_windows demo_server)(win_D \<mapsto>
                    (client_window 10 20 300 200)\<lparr>map_state := XCB_MAP_STATE_VIEWABLE,
                                                   override_redirect := True\<rparr>),
                  srv_focus := win_D\<rparr>"

definition demo_menu_wm :: WM where
  "demo_menu_wm = WM_initial menu_server us_keysyms 1920 1080 300 301 302 303 True"

text \<open>
  Dialog exclusivity: the three active flags as a tuple, the invariant that at most one
  flag is set, and the three create functions under one name.
\<close>

definition dialog_flags :: "WM \<Rightarrow> bool \<times> bool \<times> bool" where
  "dialog_flags s = (m_isRunnerActive s, m_isExitConfirmationActive s, m_isHelpActive s)"





section \<open>Properties\<close>

lemmas server_defs = xcb_generate_id_def xcb_create_window_def xcb_map_window_def revert_focus_def
  xcb_unmap_window_def xcb_destroy_window_def xcb_set_input_focus_def take_value_def
  xcb_configure_window_def xcb_send_event_def xcb_ewmh_set_wm_state_def
  xcb_get_geometry_reply_def xcb_get_window_attributes_reply_def xcb_get_property_reply_def
  xcb_icccm_get_wm_protocols_reply_def

lemmas demo_defs = demo_wm_def demo_server_def WM_initial_def key_def us_keysyms_def
  client_window_def

subsection \<open>Exit confirmation keys\<close>

lemma exit_confirmation_yes:
  "handleExitConfirmationKeypress s XK_y = Exited 0 \<and>
   handleExitConfirmationKeypress s XK_Y = Exited 0"
  by (simp add: handleExitConfirmationKeypress_def)

lemma exit_confirmation_no:
  "handleExitConfirmationKeypress s XK_n = Running (destroyExitConfirmationDialog s) \<and>
   handleExitConfirmationKeypress s XK_Escape = Running (destroyExitConfirmationDialog s)"
  by (simp add: handleExitConfirmationKeypress_def)

lemma exit_confirmation_other:
  "ks \<notin> {XK_y, XK_Y, XK_n, XK_Escape} \<Longrightarrow> handleExitConfirmationKeypress s ks = Running s"
  by (simp add: handleExitConfirmationKeypress_def)

text \<open>
  C4. The claim has \<open>N\<close>, \<open>n\<close> and Escape destroy the Exit Confirmation dialog. The
  code compares the key symbol with \<^verbatim>\<open>XK_n\<close> and \<^verbatim>\<open>XK_Escape\<close> only: with the dialog
  opened by Alt+Q in the concrete session, Shift+N (key symbol \<^verbatim>\<open>XK_N\<close>) leaves the
  dialog active and its window registered.
\<close>

theorem C4_shift_N_keeps_exit_dialog:
  "(case runEventLoop demo_wm [key 24 XCB_MOD_MASK_1, key 57 XCB_MOD_MASK_SHIFT] of
      Exited n \<Rightarrow> False
    | Running s \<Rightarrow>
        getKeysym s 57 XCB_MOD_MASK_SHIFT = XK_N \<and>
        m_isExitConfirmationActive s \<and>
        m_exitConfirmationWindow s = 0x600001 \<and>
        m_windowList s = [0x600001] \<and>
        handleExitConfirmationKeypress s XK_N = Running s)"
  by (simp add: demo_defs server_defs handleKeyPress_def getKeysym_def getFocusedWindow_def
      key_chord_def createExitConfirmationDialog_def createPopUpWindow_def focusWindow_def
      handleExitConfirmationKeypress_def Let_def)

subsection \<open>Destroy notifications\<close>

text \<open>
  C5. Unregistering a window is to remove it from the minimized windows too.
  \<^verbatim>\<open>handleDestroyNotify\<close> erases it from \<^verbatim>\<open>m_windowList\<close> and from the geometry
  cache and never looks at \<^verbatim>\<open>m_minimizedWindows\<close>. In the concrete session both clients
  are mapped and the second is minimized with Alt+M; its client then destroys it. The
  destroy notification leaves the dead window in the minimized windows, and Alt+N puts
  it back into the active sequence although the server no longer has it.
\<close>

theorem C5_destroyed_minimized_window_is_restored:
  "(case runEventLoop demo_wm
           [XCB_MAP_REQUEST win_A, XCB_MAP_REQUEST win_B, key 58 XCB_MOD_MASK_1] of
      Exited n \<Rightarrow> False
    | Running s1 \<Rightarrow>
        (case Running (s1\<lparr>m_conn := xcb_destroy_window (m_conn s1) win_B\<rparr>) of
           Exited n \<Rightarrow> False
         | Running s2 \<Rightarrow>
             m_windowList s2 = [win_A] \<and> m_minimizedWindows s2 = [win_B] \<and>
             srv_windows (m_conn s2) win_B = None \<and>
             m_minimizedWindows (handleDestroyNotify s2 win_B) = [win_B] \<and>
             (case runEventLoop s2 [XCB_DESTROY_NOTIFY win_B, key 57 XCB_MOD_MASK_1] of
                Exited n \<Rightarrow> False
              | Running s3 \<Rightarrow>
                  m_windowList s3 = [win_A, win_B] \<and> m_minimizedWindows s3 = [] \<and>
                  srv_windows (m_conn s3) win_B = None)))"
  by (simp add: demo_defs server_defs handleKeyPress_def getKeysym_def getFocusedWindow_def
      key_chord_def key_minimize_def key_restore_def handleMapRequest_def handleDestroyNotify_def
      focusWindow_def resetFocus_def getWindowGeometry_def invalidateGeometryCache_def Let_def)

text \<open>
  What \<^verbatim>\<open>handleDestroyNotify\<close> does to the registry, for every state and window: one
  occurrence of the window leaves the active sequence (none when it is not there), its
  cache entry is dropped, and the index is re-validated when the window was found.
\<close>

lemma handleDestroyNotify_effect:
  "m_windowList (handleDestroyNotify s w) = remove1 w (m_windowList s) \<and>
   count_list (m_windowList (handleDestroyNotify s w)) w = count_list (m_windowList s) w - 1 \<and>
   m_geometryCache (handleDestroyNotify s w) = (m_geometryCache s)(w := None) \<and>
   m_minimizedWindows (handleDestroyNotify s w) = m_minimizedWindows s \<and>
   m_currentWindowIndex (handleDestroyNotify s w) =
     (if w \<in> set (m_windowList s) \<and> length (remove1 w (m_windowList s)) \<le> m_currentWindowIndex s
      then 0 else m_currentWindowIndex s)"
proof -
  have count: "count_list (remove1 w xs) w = count_list xs w - 1" for xs :: "xcb_window_t list"
    by (induction xs) auto
  show ?thesis
    by (simp add: handleDestroyNotify_def invalidateGeometryCache_def Let_def remove1_idem count)
qed

subsection \<open>The current index\<close>

lemmas key_defs = handleKeyPress_def getKeysym_def getFocusedWindow_def key_chord_def

text \<open>
  C3. The claim lists minimizing among the operations after which the current index is
  a valid position. In the concrete session the two clients are mapped, which leaves
  the registry \<open>[A, B]\<close> with index 1 and the focus on \<open>B\<close>. Alt+M then runs the
  \<^verbatim>\<open>XK_m\<close> branch, which erases \<open>B\<close> and never looks at the index: the registry is
  \<open>[A]\<close> and the index is still 1.
\<close>

theorem C3_minimize_leaves_index_past_end:
  "(case runEventLoop demo_wm [XCB_MAP_REQUEST win_A, XCB_MAP_REQUEST win_B] of
      Exited n \<Rightarrow> False
    | Running s \<Rightarrow>
        m_windowList s = [win_A, win_B] \<and> m_currentWindowIndex s = 1 \<and> index_valid s \<and>
        getFocusedWindow s = win_B \<and>
        handle_event s (key 58 XCB_MOD_MASK_1) = Running (key_minimize s win_B) \<and>
        m_windowList (key_minimize s win_B) = [win_A] \<and>
        m_currentWindowIndex (key_minimize s win_B) = 1 \<and>
        \<not> index_valid (key_minimize s win_B))"
  by (simp add: demo_defs server_defs key_defs key_minimize_def handleMapRequest_def index_valid_def
      focusWindow_def resetFocus_def getWindowGeometry_def invalidateGeometryCache_def Let_def)

text \<open>
  C8. The claim has \<^verbatim>\<open>focusNextWindow\<close> leave the state unchanged when no window is
  viewable. From the state of C3 (registry \<open>[A]\<close>, index 1), once the client has
  withdrawn \<open>A\<close>, Alt+Tab examines \<open>A\<close>, finds it unmapped, focuses nothing, and
  leaves the index at 0 instead of 1.
\<close>

theorem C8_no_viewable_window_moves_index:
  "(case runEventLoop demo_wm
           [XCB_MAP_REQUEST win_A, XCB_MAP_REQUEST win_B, key 58 XCB_MOD_MASK_1] of
      Exited n \<Rightarrow> False
    | Running s1 \<Rightarrow>
        (let s2 = s1\<lparr>m_conn := xcb_unmap_window (m_conn s1) win_A\<rparr> in
           m_windowList s2 = [win_A] \<and> m_currentWindowIndex s2 = 1 \<and>
           handle_event s2 (key 23 XCB_MOD_MASK_1) = Running (focusNextWindow s2) \<and>
           focusNextWindow_examined s2 = [win_A] \<and>
           (case xcb_get_window_attributes_reply (m_conn s2) win_A of
              None \<Rightarrow> False
            | Some a \<Rightarrow> map_state a = XCB_MAP_STATE_UNMAPPED) \<and>
           m_conn (focusNextWindow s2) = m_conn s2 \<and>
           m_currentWindowIndex (focusNextWindow s2) = 0 \<and>
           focusNextWindow s2 \<noteq> s2))"
  by (simp add: demo_defs server_defs key_defs key_minimize_def handleMapRequest_def
      focusWindow_def resetFocus_def getWindowGeometry_def invalidateGeometryCache_def
      focusNextWindow_def focusNextWindow_examined_def Let_def)

subsection \<open>Move and resize slots\<close>

lemma getWindowGeometry_resizeStart:
  "getWindowGeometry (s\<lparr>resizeStart := r\<rparr>) w =
     (fst (getWindowGeometry s w), (snd (getWindowGeometry s w))\<lparr>resizeStart := r\<rparr>)"
  by (simp add: getWindowGeometry_def Let_def split: option.splits)

lemma getWindowGeometry_frame:
  "moveStart (snd (getWindowGeometry s w)) = moveStart s \<and>
   resizeStart (snd (getWindowGeometry s w)) = resizeStart s \<and>
   m_screenWidth (snd (getWindowGeometry s w)) = m_screenWidth s \<and>
   m_screenHeight (snd (getWindowGeometry s w)) = m_screenHeight s \<and>
   m_conn (snd (getWindowGeometry s w)) = m_conn s"
  by (simp add: getWindowGeometry_def Let_def split: option.splits)

text \<open>
  C2, as stated, fails: \<^verbatim>\<open>handleButtonPress\<close> never looks at the other slot. A left
  press and then a right press with Alt held, with no release between them, leave both
  slots holding the window.
\<close>

theorem C2_both_slots_set:
  "(case runEventLoop demo_wm
           [XCB_BUTTON_PRESS (alt_press 1 win_A 100 100),
            XCB_BUTTON_PRESS (alt_press 3 win_A 100 100)] of
      Exited n \<Rightarrow> False
    | Running s \<Rightarrow>
        s = demo_both_pressed \<and>
        mv_window (moveStart s) = win_A \<and> rs_window (resizeStart s) = win_A)"
  by (simp add: demo_defs demo_both_pressed_def server_defs handleButtonPress_def
      dialog_click_def alt_press_def getWindowGeometry_def Let_def)

text \<open>
  C2, amended. A button press that passes the three guards (not on an active dialog, Alt
  held, a child under the pointer) sets the move slot when the button is 1 and the
  resize slot when it is 3, and leaves the other slot as it is, whatever it holds. A
  button release empties both slots. What is exclusive is the reading of a motion
  event: while the move slot holds a window the event is a move and the resize slot
  plays no part.
\<close>

theorem C2_gesture_slots:
  "mv_window (moveStart (handleButtonRelease s)) = XCB_NONE \<and>
   rs_window (resizeStart (handleButtonRelease s)) = XCB_NONE \<and>
   moveStart (handleButtonPress s ev) =
     (if \<not> dialog_click s (bp_event ev) \<and> bp_state ev AND XCB_MOD_MASK_1 \<noteq> 0 \<and>
         bp_child ev \<noteq> XCB_NONE \<and> bp_detail ev = 1
      then \<lparr>mv_window = bp_child ev, mv_start_x = sint (bp_root_x ev),
            mv_start_y = sint (bp_root_y ev),
            mv_orig_x = wg_x (fst (getWindowGeometry s (bp_child ev))),
            mv_orig_y = wg_y (fst (getWindowGeometry s (bp_child ev)))\<rparr>
      else moveStart s) \<and>
   resizeStart (handleButtonPress s ev) =
     (if \<not> dialog_click s (bp_event ev) \<and> bp_state ev AND XCB_MOD_MASK_1 \<noteq> 0 \<and>
         bp_child ev \<noteq> XCB_NONE \<and> bp_detail ev = 3
      then \<lparr>rs_window = bp_child ev, rs_start_x = sint (bp_root_x ev),
            rs_start_y = sint (bp_root_y ev),
            rs_start_width = wg_width (fst (getWindowGeometry s (bp_child ev))),
            rs_start_height = wg_height (fst (getWindowGeometry s (bp_child ev)))\<rparr>
      else resizeStart s) \<and>
   (mv_window (moveStart s) \<noteq> XCB_NONE \<longrightarrow>
      handleMotionNotify s mv =
        (handleMotionNotify (s\<lparr>resizeStart := r\<rparr>) mv)\<lparr>resizeStart := resizeStart s\<rparr>)"
  by (simp add: handleButtonRelease_def handleButtonPress_def handleMotionNotify_def
       getWindowGeometry_resizeStart getWindowGeometry_frame invalidateGeometryCache_def
       Let_def split_beta)

theorem C2_gesture_slots_witness:
  "mv_window (moveStart demo_both_pressed) \<noteq> XCB_NONE \<and>
   rs_window (resizeStart demo_both_pressed) \<noteq> XCB_NONE \<and>
   handleMotionNotify demo_both_pressed \<lparr>mn_root_x = 130, mn_root_y = 140\<rparr> =
     (handleMotionNotify
        (demo_both_pressed\<lparr>resizeStart := resizeStart (handleButtonRelease demo_both_pressed)\<rparr>)
        \<lparr>mn_root_x = 130, mn_root_y = 140\<rparr>)\<lparr>resizeStart := resizeStart demo_both_pressed\<rparr> \<and>
   mv_window (moveStart (handleButtonRelease demo_both_pressed)) = XCB_NONE \<and>
   rs_window (resizeStart (handleButtonRelease demo_both_pressed)) = XCB_NONE"
proof -
  have slots: "mv_window (moveStart demo_both_pressed) = win_A \<and>
               rs_window (resizeStart demo_both_pressed) = win_A"
    by (simp add: demo_defs demo_both_pressed_def server_defs handleButtonPress_def
        dialog_click_def alt_press_def getWindowGeometry_def Let_def)
  then have pending: "mv_window (moveStart demo_both_pressed) \<noteq> XCB_NONE"
    by simp
  from slots pending
    C2_gesture_slots [of demo_both_pressed "alt_press 1 win_A 100 100" "\<lparr>mn_root_x = 130, mn_root_y = 140\<rparr>"
      "resizeStart (handleButtonRelease demo_both_pressed)"]
  show ?thesis by simp
qed

subsection \<open>The Runner dialog\<close>

lemma srv_windows_focusWindow_other:
  "srv_windows (m_conn s) w = None \<Longrightarrow> srv_windows (m_conn (focusWindow s v)) w = None"
  by (auto simp add: focusWindow_def server_defs Let_def split: option.splits prod.splits)

lemma srv_windows_resetFocus_other:
  "srv_windows (m_conn s) w = None \<Longrightarrow> srv_windows (m_conn (resetFocus s)) w = None"
  by (auto simp add: resetFocus_def srv_windows_focusWindow_other xcb_set_input_focus_def
      split: option.splits)

lemma resetFocus_frame:
  "m_isRunnerActive (resetFocus s) = m_isRunnerActive s \<and>
   m_runnerWindow (resetFocus s) = m_runnerWindow s \<and>
   m_runnerInput (resetFocus s) = m_runnerInput s \<and>
   os_spawned (resetFocus s) = os_spawned s \<and>
   m_windowList (resetFocus s) = m_windowList s"
  by (simp add: resetFocus_def focusWindow_def Let_def)

lemma destroyRunnerDialog_effect:
  assumes "m_isRunnerActive s" and "m_runnerWindow s \<noteq> XCB_NONE"
  shows "\<not> m_isRunnerActive (destroyRunnerDialog s) \<and>
         m_runnerWindow (destroyRunnerDialog s) = XCB_NONE \<and>
         m_runnerInput (destroyRunnerDialog s) = [] \<and>
         os_spawned (destroyRunnerDialog s) = os_spawned s \<and>
         m_windowList (destroyRunnerDialog s) = remove1 (m_runnerWindow s) (m_windowList s) \<and>
         srv_windows (m_conn (destroyRunnerDialog s)) (m_runnerWindow s) = None"
proof -
  have gone: "srv_windows (xcb_destroy_window (xcb_unmap_window c w) w) w = None" for c w
    by (auto simp add: server_defs split: option.splits)
  show ?thesis
    using assms
    by (simp add: destroyRunnerDialog_def destroyPopUpWindow_def Let_def resetFocus_frame
        srv_windows_resetFocus_other gone remove1_idem)
qed

text \<open>
  C10. While the Runner dialog is active (its flag set and its window allocated), a key
  symbol from 32 to 126 appends its character to the input and sends the synthetic
  expose event to the dialog's window; BackSpace drops the last character and sends the
  same event (on an empty input it does nothing); Escape destroys the dialog and clears
  the input without running anything; Return hands the input to \<^verbatim>\<open>executeCommand\<close>,
  which spawns it unless it is empty or \<^verbatim>\<open>fork\<close> fails, and then destroys the dialog and
  clears the input. With no Exit Confirmation dialog in front, every key press is routed
  to this handler.
\<close>

theorem C10_runner_keys:
  assumes "m_isRunnerActive s" and "m_runnerWindow s \<noteq> XCB_NONE"
  shows
    "(32 \<le> ks \<and> ks \<le> 126 \<longrightarrow>
        handleRunnerInput s ks =
          s\<lparr>m_runnerInput := m_runnerInput s @ [char_of (unat ks)],
            m_conn := xcb_send_event (m_conn s) (m_runnerWindow s)
                        (SentExpose RUNNER_WIDTH RUNNER_HEIGHT)\<rparr>) \<and>
     handleRunnerInput s XK_BackSpace =
       (if m_runnerInput s = [] then s
        else s\<lparr>m_runnerInput := butlast (m_runnerInput s),
               m_conn := xcb_send_event (m_conn s) (m_runnerWindow s)
                           (SentExpose RUNNER_WIDTH RUNNER_HEIGHT)\<rparr>) \<and>
     handleRunnerInput s XK_Escape = destroyRunnerDialog s \<and>
     \<not> m_isRunnerActive (handleRunnerInput s XK_Escape) \<and>
     m_runnerWindow (handleRunnerInput s XK_Escape) = XCB_NONE \<and>
     m_runnerInput (handleRunnerInput s XK_Escape) = [] \<and>
     os_spawned (handleRunnerInput s XK_Escape) = os_spawned s \<and>
     srv_windows (m_conn (handleRunnerInput s XK_Escape)) (m_runnerWindow s) = None \<and>
     handleRunnerInput s XK_Return = destroyRunnerDialog (executeCommand s (m_runnerInput s)) \<and>
     os_spawned (handleRunnerInput s XK_Return) =
       (if m_runnerInput s \<noteq> [] \<and> os_fork_ok s then os_spawned s @ [m_runnerInput s]
        else os_spawned s) \<and>
     \<not> m_isRunnerActive (handleRunnerInput s XK_Return) \<and>
     m_runnerWindow (handleRunnerInput s XK_Return) = XCB_NONE \<and>
     m_runnerInput (handleRunnerInput s XK_Return) = [] \<and>
     srv_windows (m_conn (handleRunnerInput s XK_Return)) (m_runnerWindow s) = None \<and>
     (\<not> m_isExitConfirmationActive s \<longrightarrow>
        handleKeyPress s ev = Running (handleRunnerInput s (getKeysym s (kp_detail ev) (kp_state ev))))"
proof -
  have printable: "32 \<le> ks \<and> ks \<le> 126 \<longrightarrow>
        handleRunnerInput s ks =
          s\<lparr>m_runnerInput := m_runnerInput s @ [char_of (unat ks)],
            m_conn := xcb_send_event (m_conn s) (m_runnerWindow s)
                        (SentExpose RUNNER_WIDTH RUNNER_HEIGHT)\<rparr>"
    using assms by (auto simp add: handleRunnerInput_def redrawRunnerDialog_def)
  have backspace: "handleRunnerInput s XK_BackSpace =
       (if m_runnerInput s = [] then s
        else s\<lparr>m_runnerInput := butlast (m_runnerInput s),
               m_conn := xcb_send_event (m_conn s) (m_runnerWindow s)
                           (SentExpose RUNNER_WIDTH RUNNER_HEIGHT)\<rparr>)"
    using assms by (simp add: handleRunnerInput_def redrawRunnerDialog_def)
  have escape: "handleRunnerInput s XK_Escape = destroyRunnerDialog s"
    by (simp add: handleRunnerInput_def)
  have enter: "handleRunnerInput s XK_Return = destroyRunnerDialog (executeCommand s (m_runnerInput s))"
    by (simp add: handleRunnerInput_def)
  have exec: "m_isRunnerActive (executeCommand s cmd) \<and> m_runnerWindow (executeCommand s cmd) = m_runnerWindow s \<and>
      m_conn (executeCommand s cmd) = m_conn s \<and>
      os_spawned (executeCommand s cmd) = (if cmd \<noteq> [] \<and> os_fork_ok s then os_spawned s @ [cmd] else os_spawned s)" for cmd
    using assms by (simp add: executeCommand_def)
  have route: "\<not> m_isExitConfirmationActive s \<longrightarrow>
        handleKeyPress s ev = Running (handleRunnerInput s (getKeysym s (kp_detail ev) (kp_state ev)))"
    using assms by (simp add: handleKeyPress_def Let_def)
  from exec [of "m_runnerInput s"] assms
  have d2: "\<not> m_isRunnerActive (destroyRunnerDialog (executeCommand s (m_runnerInput s))) \<and>
         m_runnerWindow (destroyRunnerDialog (executeCommand s (m_runnerInput s))) = XCB_NONE \<and>
         m_runnerInput (destroyRunnerDialog (executeCommand s (m_runnerInput s))) = [] \<and>
         os_spawned (destroyRunnerDialog (executeCommand s (m_runnerInput s))) = os_spawned (executeCommand s (m_runnerInput s)) \<and>
         srv_windows (m_conn (destroyRunnerDialog (executeCommand s (m_runnerInput s)))) (m_runnerWindow s) = None"
    using destroyRunnerDialog_effect [of "executeCommand s (m_runnerInput s)"] by simp
  show ?thesis
    using printable backspace route d2 exec [of "m_runnerInput s"]
      destroyRunnerDialog_effect [OF assms]
    unfolding escape enter by simp
qed

lemma char_l: "char_of (108 :: nat) = CHR ''l''" by code_simp
lemma char_s: "char_of (115 :: nat) = CHR ''s''" by code_simp

lemma demo_runner_ls_trace:
  "runEventLoop demo_wm [key 27 XCB_MOD_MASK_1, key 46 0, key 39 0] = Running demo_runner_ls"
  by (simp add: demo_runner_ls_def demo_defs handleKeyPress_def getKeysym_def getFocusedWindow_def
      key_chord_def createRunnerDialog_def createPopUpWindow_def focusWindow_def server_defs
      handleRunnerInput_def redrawRunnerDialog_def Let_def)

lemma demo_runner_ls_fields:
  "m_isRunnerActive demo_runner_ls \<and> m_runnerWindow demo_runner_ls = 0x600001 \<and>
   m_runnerInput demo_runner_ls = ''ls'' \<and> \<not> m_isExitConfirmationActive demo_runner_ls \<and>
   os_fork_ok demo_runner_ls \<and> os_spawned demo_runner_ls = [] \<and>
   m_keysyms demo_runner_ls = us_keysyms \<and>
   m_windowList demo_runner_ls = [0x600001] \<and>
   srv_sent (m_conn demo_runner_ls) =
     [(0x600001, SentExpose RUNNER_WIDTH RUNNER_HEIGHT), (0x600001, SentExpose RUNNER_WIDTH RUNNER_HEIGHT)]"
  by (simp add: demo_runner_ls_def demo_defs createRunnerDialog_def createPopUpWindow_def
      focusWindow_def server_defs handleRunnerInput_def redrawRunnerDialog_def Let_def char_l char_s)

text \<open>
  The scenario of C10 in the concrete session: Alt+R opens the dialog, the keys
  \<open>l\<close> and \<open>s\<close> fill the input, and Return delivers exactly \<open>ls\<close>, destroys the
  dialog and leaves the input empty.
\<close>

theorem C10_runner_keys_witness:
  "runEventLoop demo_wm [key 27 XCB_MOD_MASK_1, key 46 0, key 39 0] = Running demo_runner_ls \<and>
   m_isRunnerActive demo_runner_ls \<and> m_runnerWindow demo_runner_ls \<noteq> XCB_NONE \<and>
   \<not> m_isExitConfirmationActive demo_runner_ls \<and>
   m_runnerInput demo_runner_ls = ''ls'' \<and>
   handle_event demo_runner_ls (key 36 0) = Running (handleRunnerInput demo_runner_ls XK_Return) \<and>
   os_spawned (handleRunnerInput demo_runner_ls XK_Return) = [''ls''] \<and>
   \<not> m_isRunnerActive (handleRunnerInput demo_runner_ls XK_Return) \<and>
   m_runnerInput (handleRunnerInput demo_runner_ls XK_Return) = [] \<and>
   srv_windows (m_conn (handleRunnerInput demo_runner_ls XK_Return)) 0x600001 = None \<and>
   (32::32 word) \<le> 0x21 \<and> (0x21::32 word) \<le> 126 \<and>
   m_runnerInput (handleRunnerInput demo_runner_ls 0x21) = ''ls!'' \<and>
   m_runnerInput (handleRunnerInput demo_runner_ls XK_BackSpace) = ''l''"
proof -
  have ks: "getKeysym demo_runner_ls 36 0 = XK_Return"
    using demo_runner_ls_fields by (simp add: getKeysym_def us_keysyms_def)
  have ch: "char_of (33 :: nat) = CHR ''!''" by code_simp
  have active: "m_isRunnerActive demo_runner_ls" and win: "m_runnerWindow demo_runner_ls \<noteq> XCB_NONE"
    using demo_runner_ls_fields by simp_all
  from C10_runner_keys [OF active win, of "0x21" "\<lparr>kp_detail = 36, kp_state = 0\<rparr>"]
    demo_runner_ls_fields demo_runner_ls_trace ks ch
  show ?thesis by (elim conjE) (simp add: key_def)
qed

subsection \<open>Fullscreen\<close>

lemma uint16_roundtrip: "ucast (ucast (w::16 word) :: 32 word) = w"
  by (simp add: ucast_up_ucast_id is_up)

lemma low16_of_int: "ucast (word_of_int i :: 32 word) = (word_of_int i :: 16 word)"
  by (rule bit_word_eqI) (auto simp add: bit_simps)

lemma configure_xywh:
  "srv_windows c w = Some xw \<Longrightarrow>
   xcb_configure_window c w 15 [vx, vy, vw, vh] =
     c\<lparr>srv_windows := (srv_windows c)(w \<mapsto>
         xw\<lparr>geom_x := ucast vx, geom_y := ucast vy, geom_width := ucast vw, geom_height := ucast vh\<rparr>)\<rparr>"
  by (simp add: xcb_configure_window_def take_value_def)

lemma getWindowGeometry_coherent:
  assumes "srv_windows (m_conn s) w = Some xw"
    and "m_geometryCache s w = None \<or> m_geometryCache s w = Some (geometry_of xw)"
  shows "getWindowGeometry s w = (geometry_of xw, s\<lparr>m_geometryCache := (m_geometryCache s)(w \<mapsto> geometry_of xw)\<rparr>)"
  using assms
  by (auto simp add: getWindowGeometry_def xcb_get_geometry_reply_def geometry_of_def Let_def
      fun_upd_idem)

lemma toggle_enter:
  assumes "w \<noteq> XCB_NONE" and "srv_windows (m_conn s) w = Some xw"
    and "NET_WM_STATE_FULLSCREEN s \<notin> set (net_wm_state xw)"
    and "m_geometryCache s w = None \<or> m_geometryCache s w = Some (geometry_of xw)"
  shows "toggleFullscreen s w =
     s\<lparr>m_originalGeometry := (m_originalGeometry s)(w \<mapsto> geometry_of xw),
       m_conn := (m_conn s)\<lparr>srv_windows := (srv_windows (m_conn s))(w \<mapsto>
          xw\<lparr>net_wm_state := [NET_WM_STATE_FULLSCREEN s],
             geom_x := 0, geom_y := 0,
             geom_width := word_of_int (m_screenWidth s),
             geom_height := word_of_int (m_screenHeight s)\<rparr>)\<rparr>,
       m_geometryCache := (m_geometryCache s)(w := None)\<rparr>"
  using assms(1-3)
  by (simp add: toggleFullscreen_def getWindowGeometry_coherent [OF assms(2,4)]
      xcb_get_property_reply_def xcb_ewmh_set_wm_state_def configure_xywh
      invalidateGeometryCache_def Let_def low16_of_int)

lemma toggle_leave:
  assumes "w \<noteq> XCB_NONE" and "srv_windows (m_conn s) w = Some xw"
    and "NET_WM_STATE_FULLSCREEN s \<in> set (net_wm_state xw)"
  shows "toggleFullscreen s w =
     (case m_originalGeometry s w of
        None \<Rightarrow>
          s\<lparr>m_conn := (m_conn s)\<lparr>srv_windows := (srv_windows (m_conn s))(w \<mapsto>
                 xw\<lparr>net_wm_state := []\<rparr>)\<rparr>,
            m_geometryCache := (m_geometryCache s)(w := None)\<rparr>
      | Some g \<Rightarrow>
          s\<lparr>m_conn := (m_conn s)\<lparr>srv_windows := (srv_windows (m_conn s))(w \<mapsto>
                 xw\<lparr>geom_x := word_of_int (wg_x g), geom_y := word_of_int (wg_y g),
                    geom_width := wg_width g, geom_height := wg_height g,
                    net_wm_state := []\<rparr>)\<rparr>,
            m_originalGeometry := (m_originalGeometry s)(w := None),
            m_geometryCache := (m_geometryCache s)(w := None)\<rparr>)"
  using assms
  by (simp add: toggleFullscreen_def xcb_get_property_reply_def xcb_ewmh_set_wm_state_def
      configure_xywh invalidateGeometryCache_def Let_def uint16_roundtrip low16_of_int
      split: option.splits)


text \<open>
  C7, as stated, fails when the geometry cache holds an outdated entry for the window.
  An override-redirect window at \<open>(10, 20)\<close> is clicked with Alt held, which caches its
  geometry, and the button is released, which keeps the entry. The window then moves
  itself to \<open>(500, 400)\<close>; no configure request reaches the window manager. Two
  presses of Alt+F put it at \<open>(10, 20)\<close> again, not where it was before the first toggle.
\<close>

theorem C7_stale_cache_restores_old_rectangle:
  "(case runEventLoop demo_menu_wm
           [XCB_BUTTON_PRESS (alt_press 1 win_D 15 25), XCB_BUTTON_RELEASE] of
      Exited n \<Rightarrow> False
    | Running s1 \<Rightarrow>
        (case Running (s1\<lparr>m_conn := xcb_configure_window (m_conn s1) win_D
                                       (XCB_CONFIG_WINDOW_X OR XCB_CONFIG_WINDOW_Y) [500, 400]\<rparr>) of
           Exited n \<Rightarrow> False
         | Running s2 \<Rightarrow>
             getFocusedWindow s2 = win_D \<and>
             (case srv_windows (m_conn s2) win_D of
                None \<Rightarrow> False
              | Some xw \<Rightarrow>
                  geom_x xw = 500 \<and> geom_y xw = 400 \<and> geom_width xw = 300 \<and>
                  geom_height xw = 200 \<and> NET_WM_STATE_FULLSCREEN s2 \<notin> set (net_wm_state xw)) \<and>
             (case runEventLoop s2 [key 41 XCB_MOD_MASK_1, key 41 XCB_MOD_MASK_1] of
                Exited n \<Rightarrow> False
              | Running s3 \<Rightarrow>
                  (case srv_windows (m_conn s3) win_D of
                     None \<Rightarrow> False
                   | Some xw \<Rightarrow>
                       geom_x xw = 10 \<and> geom_y xw = 20 \<and> geom_width xw = 300 \<and>
                       geom_height xw = 200 \<and>
                       NET_WM_STATE_FULLSCREEN s3 \<notin> set (net_wm_state xw)))))"
  by (simp add: demo_menu_wm_def menu_server_def demo_defs server_defs alt_press_def
      handleButtonPress_def handleButtonRelease_def dialog_click_def handleKeyPress_def
      getKeysym_def getFocusedWindow_def key_chord_def toggleFullscreen_def
      getWindowGeometry_def invalidateGeometryCache_def Let_def)

text \<open>
  C7, amended. For a window the server has, that is not marked fullscreen and whose cache entry,
  if there is one, agrees with the server: the first toggle saves the geometry, sets the
  fullscreen state and makes the window cover the screen; the second puts back exactly
  the saved \<open>(x, y, width, height)\<close>, empties the state property and erases the saved
  entry; the cache entry is gone after each toggle. Leaving fullscreen with no saved
  entry only empties the state property and drops the cache entry.
\<close>

theorem C7_fullscreen_round_trip:
  assumes "w \<noteq> XCB_NONE"
    and "srv_windows (m_conn s) w = Some xw"
    and "NET_WM_STATE_FULLSCREEN s \<notin> set (net_wm_state xw)"
    and "m_geometryCache s w = None \<or> m_geometryCache s w = Some (geometry_of xw)"
  shows
    "m_originalGeometry (toggleFullscreen s w) w = Some (geometry_of xw) \<and>
     srv_windows (m_conn (toggleFullscreen s w)) w =
       Some (xw\<lparr>net_wm_state := [NET_WM_STATE_FULLSCREEN s],
                geom_x := 0, geom_y := 0,
                geom_width := word_of_int (m_screenWidth s),
                geom_height := word_of_int (m_screenHeight s)\<rparr>) \<and>
     m_geometryCache (toggleFullscreen s w) w = None \<and>
     srv_windows (m_conn (toggleFullscreen (toggleFullscreen s w) w)) w =
       Some (xw\<lparr>net_wm_state := []\<rparr>) \<and>
     m_originalGeometry (toggleFullscreen (toggleFullscreen s w) w) w = None \<and>
     m_geometryCache (toggleFullscreen (toggleFullscreen s w) w) w = None \<and>
     toggleFullscreen (toggleFullscreen s w) w =
       s\<lparr>m_conn := (m_conn s)\<lparr>srv_windows := (srv_windows (m_conn s))(w \<mapsto> xw\<lparr>net_wm_state := []\<rparr>)\<rparr>,
         m_originalGeometry := (m_originalGeometry s)(w := None),
         m_geometryCache := (m_geometryCache s)(w := None)\<rparr> \<and>
     (NET_WM_STATE_FULLSCREEN s \<in> set (net_wm_state xw') \<and> m_originalGeometry s w = None \<longrightarrow>
        toggleFullscreen (s\<lparr>m_conn := (m_conn s)\<lparr>srv_windows := (srv_windows (m_conn s))(w \<mapsto> xw')\<rparr>\<rparr>) w =
          s\<lparr>m_conn := (m_conn s)\<lparr>srv_windows := (srv_windows (m_conn s))(w \<mapsto> xw'\<lparr>net_wm_state := []\<rparr>)\<rparr>,
            m_geometryCache := (m_geometryCache s)(w := None)\<rparr>)"
proof -
  let ?s1 = "toggleFullscreen s w"
  let ?fs = "xw\<lparr>net_wm_state := [NET_WM_STATE_FULLSCREEN s], geom_x := 0, geom_y := 0,
                geom_width := word_of_int (m_screenWidth s),
                geom_height := word_of_int (m_screenHeight s)\<rparr>"
  have s1: "?s1 = s\<lparr>m_originalGeometry := (m_originalGeometry s)(w \<mapsto> geometry_of xw),
       m_conn := (m_conn s)\<lparr>srv_windows := (srv_windows (m_conn s))(w \<mapsto> ?fs)\<rparr>,
       m_geometryCache := (m_geometryCache s)(w := None)\<rparr>"
    by (rule toggle_enter [OF assms])
  have win1: "srv_windows (m_conn ?s1) w = Some ?fs"
    and fs1: "NET_WM_STATE_FULLSCREEN ?s1 \<in> set (net_wm_state ?fs)"
    and og1: "m_originalGeometry ?s1 w = Some (geometry_of xw)"
    by (simp_all add: s1)
  have restored: "(?fs)\<lparr>geom_x := word_of_int (wg_x (geometry_of xw)),
                  geom_y := word_of_int (wg_y (geometry_of xw)),
                  geom_width := wg_width (geometry_of xw),
                  geom_height := wg_height (geometry_of xw),
                  net_wm_state := []\<rparr> = xw\<lparr>net_wm_state := []\<rparr>"
    by (simp add: geometry_of_def)
  have s2: "toggleFullscreen ?s1 w =
       s\<lparr>m_conn := (m_conn s)\<lparr>srv_windows := (srv_windows (m_conn s))(w \<mapsto> xw\<lparr>net_wm_state := []\<rparr>)\<rparr>,
         m_originalGeometry := (m_originalGeometry s)(w := None),
         m_geometryCache := (m_geometryCache s)(w := None)\<rparr>"
    unfolding toggle_leave [OF assms(1) win1 fs1] og1 option.case restored
    by (simp add: s1)
  have missing: "NET_WM_STATE_FULLSCREEN s \<in> set (net_wm_state xw') \<and> m_originalGeometry s w = None \<longrightarrow>
        toggleFullscreen (s\<lparr>m_conn := (m_conn s)\<lparr>srv_windows := (srv_windows (m_conn s))(w \<mapsto> xw')\<rparr>\<rparr>) w =
          s\<lparr>m_conn := (m_conn s)\<lparr>srv_windows := (srv_windows (m_conn s))(w \<mapsto> xw'\<lparr>net_wm_state := []\<rparr>)\<rparr>,
            m_geometryCache := (m_geometryCache s)(w := None)\<rparr>"
  proof
    assume a: "NET_WM_STATE_FULLSCREEN s \<in> set (net_wm_state xw') \<and> m_originalGeometry s w = None"
    let ?t = "s\<lparr>m_conn := (m_conn s)\<lparr>srv_windows := (srv_windows (m_conn s))(w \<mapsto> xw')\<rparr>\<rparr>"
    have "srv_windows (m_conn ?t) w = Some xw'" by simp
    moreover have "NET_WM_STATE_FULLSCREEN ?t \<in> set (net_wm_state xw')" using a by simp
    ultimately show "toggleFullscreen ?t w =
          s\<lparr>m_conn := (m_conn s)\<lparr>srv_windows := (srv_windows (m_conn s))(w \<mapsto> xw'\<lparr>net_wm_state := []\<rparr>)\<rparr>,
            m_geometryCache := (m_geometryCache s)(w := None)\<rparr>"
      using a toggle_leave [OF assms(1), of ?t xw'] by simp
  qed
  show ?thesis
    using missing by (simp add: s2) (simp add: s1)
qed

theorem C7_fullscreen_round_trip_witness:
  "win_B \<noteq> XCB_NONE \<and>
   srv_windows (m_conn demo_wm) win_B = Some (client_window 50 60 640 480) \<and>
   NET_WM_STATE_FULLSCREEN demo_wm \<notin> set (net_wm_state (client_window 50 60 640 480)) \<and>
   m_geometryCache demo_wm win_B = None \<and>
   m_originalGeometry (toggleFullscreen demo_wm win_B) win_B =
     Some \<lparr>wg_x = 50, wg_y = 60, wg_width = 640, wg_height = 480\<rparr> \<and>
   srv_windows (m_conn (toggleFullscreen demo_wm win_B)) win_B =
     Some ((client_window 0 0 1920 1080)\<lparr>net_wm_state := [302]\<rparr>) \<and>
   srv_windows (m_conn (toggleFullscreen (toggleFullscreen demo_wm win_B) win_B)) win_B =
     Some (client_window 50 60 640 480) \<and>
   m_originalGeometry (toggleFullscreen (toggleFullscreen demo_wm win_B) win_B) win_B = None \<and>
   302 \<in> set (net_wm_state ((client_window 7 8 90 100)\<lparr>net_wm_state := [302]\<rparr>)) \<and>
   m_originalGeometry demo_wm win_B = None \<and>
   srv_windows (m_conn (toggleFullscreen
       (demo_wm\<lparr>m_conn := (m_conn demo_wm)\<lparr>srv_windows := (srv_windows (m_conn demo_wm))
          (win_B \<mapsto> (client_window 7 8 90 100)\<lparr>net_wm_state := [302]\<rparr>)\<rparr>\<rparr>) win_B)) win_B =
     Some (client_window 7 8 90 100)"
proof -
  have facts: "srv_windows (m_conn demo_wm) win_B = Some (client_window 50 60 640 480) \<and>
      NET_WM_STATE_FULLSCREEN demo_wm = 302 \<and> m_geometryCache demo_wm win_B = None \<and>
      m_originalGeometry demo_wm win_B = None \<and>
      m_screenWidth demo_wm = 1920 \<and> m_screenHeight demo_wm = 1080"
    by (simp add: demo_defs)
  have h1: "win_B \<noteq> XCB_NONE" by simp
  have h2: "srv_windows (m_conn demo_wm) win_B = Some (client_window 50 60 640 480)"
    using facts by simp
  have h3: "NET_WM_STATE_FULLSCREEN demo_wm \<notin> set (net_wm_state (client_window 50 60 640 480))"
    by (simp add: client_window_def)
  have h4: "m_geometryCache demo_wm win_B = None \<or>
            m_geometryCache demo_wm win_B = Some (geometry_of (client_window 50 60 640 480))"
    using facts by simp
  from C7_fullscreen_round_trip [OF h1 h2 h3 h4,
      of "(client_window 7 8 90 100)\<lparr>net_wm_state := [302]\<rparr>"] facts
  show ?thesis
    by (elim conjE) (simp add: client_window_def geometry_of_def)
qed

subsection \<open>Edge snapping\<close>










subsection \<open>Minimize and restore\<close>

lemma configure_stack: "xcb_configure_window c w 64 [v] = c"
  by (simp add: xcb_configure_window_def take_value_def map_upd_triv split: option.splits)

lemma focusWindow_conn:
  "focusWindow s w =
     s\<lparr>m_conn := (if w = XCB_NONE then m_conn s
                   else xcb_set_input_focus (xcb_map_window (m_conn s) w) w)\<rparr>"
  by (simp add: focusWindow_def configure_stack Let_def)

lemma focusWindow_frame: "focusWindow s w = s\<lparr>m_conn := m_conn (focusWindow s w)\<rparr>"
  by (simp add: focusWindow_conn)

lemma map_then_focus:
  "xcb_set_input_focus (xcb_map_window c w) w =
     (case srv_windows c w of
        None \<Rightarrow> c
      | Some xw \<Rightarrow> c\<lparr>srv_windows := (srv_windows c)(w \<mapsto> xw\<lparr>map_state := XCB_MAP_STATE_VIEWABLE\<rparr>),
                    srv_focus := w\<rparr>)"
  by (simp add: xcb_set_input_focus_def xcb_map_window_def split: option.splits)

lemma focusWindow_idem: "focusWindow (focusWindow s w) w = focusWindow s w"
  by (simp add: focusWindow_conn map_then_focus split: option.splits)

lemma focusWindow_focus:
  "w \<noteq> XCB_NONE \<Longrightarrow> srv_windows (m_conn s) w \<noteq> None \<Longrightarrow> srv_focus (m_conn (focusWindow s w)) = w"
  by (auto simp add: focusWindow_conn map_then_focus split: option.splits)

lemma dom_map_window: "dom (srv_windows (xcb_map_window c w)) = dom (srv_windows c)"
  by (auto simp add: xcb_map_window_def split: option.splits if_splits)

lemma dom_unmap_window: "dom (srv_windows (xcb_unmap_window c w)) = dom (srv_windows c)"
  by (auto simp add: xcb_unmap_window_def revert_focus_def split: option.splits if_splits)

lemma dom_set_input_focus: "dom (srv_windows (xcb_set_input_focus c w)) = dom (srv_windows c)"
  by (auto simp add: xcb_set_input_focus_def split: option.splits if_splits)

lemma dom_focusWindow: "dom (srv_windows (m_conn (focusWindow s w))) = dom (srv_windows (m_conn s))"
  by (simp add: focusWindow_conn dom_map_window dom_set_input_focus)

lemma resetFocus_conn: "resetFocus s = s\<lparr>m_conn := m_conn (resetFocus s)\<rparr>"
  by (simp add: resetFocus_def focusWindow_conn)

lemma dom_resetFocus: "dom (srv_windows (m_conn (resetFocus s))) = dom (srv_windows (m_conn s))"
  by (simp add: resetFocus_def dom_focusWindow dom_set_input_focus)

lemma restore_loop_append: "restore_loop (xs @ ys) s = restore_loop ys (restore_loop xs s)"
  by (induction xs arbitrary: s) (simp_all add: Let_def)

lemma restore_loop_frame:
  "restore_loop ws s =
     s\<lparr>m_conn := m_conn (restore_loop ws s), m_windowList := m_windowList (restore_loop ws s)\<rparr>"
proof (induction ws arbitrary: s)
  case Nil
  show ?case by simp
next
  case (Cons w ws)
  let ?s2 = "if w \<notin> set (m_windowList s)
             then s\<lparr>m_conn := xcb_map_window (m_conn s) w, m_windowList := m_windowList s @ [w]\<rparr>
             else s\<lparr>m_conn := xcb_map_window (m_conn s) w\<rparr>"
  let ?r = "restore_loop ws ?s2"
  have step: "restore_loop (w # ws) s = ?r"
    by (simp add: Let_def)
  have "?r = ?s2\<lparr>m_conn := m_conn ?r, m_windowList := m_windowList ?r\<rparr>"
    by (rule Cons.IH)
  also have "\<dots> = s\<lparr>m_conn := m_conn ?r, m_windowList := m_windowList ?r\<rparr>"
    by simp
  finally show ?case unfolding step .
qed

lemma restore_loop_set:
  "set (m_windowList (restore_loop ws s)) = set (m_windowList s) \<union> set ws"
  by (induction ws arbitrary: s) (auto simp add: Let_def)

lemma restore_loop_distinct:
  "distinct (m_windowList s) \<Longrightarrow> distinct (m_windowList (restore_loop ws s))"
  by (induction ws arbitrary: s) (auto simp add: Let_def)

lemma restore_loop_dom:
  "dom (srv_windows (m_conn (restore_loop ws s))) = dom (srv_windows (m_conn s))"
  by (induction ws arbitrary: s) (simp_all add: Let_def dom_map_window)

lemma restore_loop_prefix:
  "\<exists>added. m_windowList (restore_loop ws s) = m_windowList s @ added \<and> set added \<subseteq> set ws"
proof (induction ws arbitrary: s)
  case Nil
  show ?case by simp
next
  case (Cons w ws)
  let ?s2 = "if w \<notin> set (m_windowList s)
             then s\<lparr>m_conn := xcb_map_window (m_conn s) w, m_windowList := m_windowList s @ [w]\<rparr>
             else s\<lparr>m_conn := xcb_map_window (m_conn s) w\<rparr>"
  have step: "restore_loop (w # ws) s = restore_loop ws ?s2"
    by (simp add: Let_def)
  obtain added where a: "m_windowList (restore_loop ws ?s2) = m_windowList ?s2 @ added"
    and b: "set added \<subseteq> set ws"
    using Cons.IH [of ?s2] by blast
  show ?case
  proof (cases "w \<in> set (m_windowList s)")
    case True
    then show ?thesis using a b unfolding step by auto
  next
    case False
    then have "m_windowList (restore_loop ws ?s2) = m_windowList s @ (w # added)"
      using a by simp
    moreover have "set (w # added) \<subseteq> set (w # ws)" using b by auto
    ultimately show ?thesis unfolding step by blast
  qed
qed

lemma restore_loop_last:
  assumes "ws \<noteq> []" and "\<not> set ws \<subseteq> set (m_windowList s)"
  shows "last (m_windowList (restore_loop ws s)) \<in> set ws"
proof -
  obtain added where a: "m_windowList (restore_loop ws s) = m_windowList s @ added"
    and b: "set added \<subseteq> set ws"
    using restore_loop_prefix by blast
  have "added \<noteq> []"
  proof
    assume "added = []"
    then have "set (m_windowList (restore_loop ws s)) = set (m_windowList s)" using a by simp
    then show False using assms(2) by (auto simp add: restore_loop_set)
  qed
  then have "last (m_windowList (restore_loop ws s)) = last added" using a by simp
  moreover have "last added \<in> set added" using \<open>added \<noteq> []\<close> by simp
  ultimately show ?thesis using b by auto
qed


lemma handleKeyPress_chord:
  assumes "\<not> m_isExitConfirmationActive s" "\<not> m_isRunnerActive s" "\<not> m_isHelpActive s"
    and "kp_state ev AND XCB_MOD_MASK_1 \<noteq> 0"
  shows "handleKeyPress s ev =
           Running (key_chord s (getKeysym s (kp_detail ev) (kp_state ev)) (getFocusedWindow s))"
  using assms by (simp add: handleKeyPress_def Let_def)

lemma count_list_distinct: "distinct xs \<Longrightarrow> x \<in> set xs \<Longrightarrow> count_list xs x = 1"
  by (induction xs) auto

text \<open>
  C9. With no dialog active, Alt+M on the focused window \<open>foc\<close>, a member of a
  duplicate-free active sequence and not a dialog window, removes it from the active
  sequence and appends it to the minimized windows. Alt+N then leaves the active
  sequence duplicate-free and holding exactly the former active and minimized windows,
  so every minimized window is in it once; it empties the minimized windows and focuses
  the last window of the active sequence, which is a restored one, and is \<open>foc\<close>
  itself when \<open>foc\<close> was not minimized before. A second Alt+N changes nothing.
\<close>

theorem C9_minimize_restore_round_trip:
  assumes nodialog: "\<not> m_isExitConfirmationActive s" "\<not> m_isRunnerActive s" "\<not> m_isHelpActive s"
    and keym: "kp_state evm AND XCB_MOD_MASK_1 \<noteq> 0"
              "getKeysym s (kp_detail evm) (kp_state evm) = XK_m"
    and keyn: "kp_state evn AND XCB_MOD_MASK_1 \<noteq> 0"
              "getKeysym s (kp_detail evn) (kp_state evn) = XK_n"
    and foc: "getFocusedWindow s = foc" "foc \<noteq> XCB_NONE"
             "foc \<noteq> m_runnerWindow s" "foc \<noteq> m_exitConfirmationWindow s" "foc \<noteq> m_helpWindow s"
    and managed: "foc \<in> set (m_windowList s)" "distinct (m_windowList s)"
  shows
    "\<exists>s1 s2.
       handleKeyPress s evm = Running s1 \<and>
       m_windowList s1 = remove1 foc (m_windowList s) \<and>
       foc \<notin> set (m_windowList s1) \<and>
       m_minimizedWindows s1 = m_minimizedWindows s @ [foc] \<and>
       handleKeyPress s1 evn = Running s2 \<and>
       distinct (m_windowList s2) \<and>
       set (m_windowList s2) = set (m_windowList s1) \<union> set (m_minimizedWindows s1) \<and>
       (\<forall>w \<in> set (m_minimizedWindows s1). count_list (m_windowList s2) w = 1) \<and>
       m_minimizedWindows s2 = [] \<and>
       last (m_windowList s2) \<in> set (m_minimizedWindows s1) \<and>
       (foc \<notin> set (m_minimizedWindows s) \<longrightarrow> last (m_windowList s2) = foc) \<and>
       (last (m_windowList s2) \<noteq> XCB_NONE \<and>
        srv_windows (m_conn s) (last (m_windowList s2)) \<noteq> None \<longrightarrow>
          srv_focus (m_conn s2) = last (m_windowList s2)) \<and>
       handleKeyPress s2 evn = Running s2"
proof -
  define t where "t = s\<lparr>m_windowList := remove1 foc (m_windowList s),
              m_minimizedWindows := m_minimizedWindows s @ [foc],
              m_conn := xcb_unmap_window (m_conn s) foc\<rparr>"
  define s1 where "s1 = resetFocus t"
  define r where "r = restore_loop (m_minimizedWindows s1) s1"
  define u where "u = r\<lparr>m_minimizedWindows := []\<rparr>"
  define l where "l = last (m_windowList r)"
  define s2 where "s2 = focusWindow u l"
  have min: "key_minimize s foc = s1"
    using foc managed by (simp add: key_minimize_def Let_def s1_def t_def)
  have press_m: "handleKeyPress s evm = Running s1"
    using handleKeyPress_chord [OF nodialog keym(1)] keym(2) foc(1) min
    by (simp add: key_chord_def)
  have s1: "s1 = t\<lparr>m_conn := m_conn s1\<rparr>"
    unfolding s1_def by (rule resetFocus_conn)
  have list1: "m_windowList s1 = remove1 foc (m_windowList s)"
    and min1: "m_minimizedWindows s1 = m_minimizedWindows s @ [foc]"
    and flags1: "\<not> m_isExitConfirmationActive s1" "\<not> m_isRunnerActive s1" "\<not> m_isHelpActive s1"
    and keys1: "m_keysyms s1 = m_keysyms s"
    using nodialog by (subst s1, simp add: t_def)+
  have gone: "foc \<notin> set (m_windowList s1)"
    using managed by (simp add: list1)
  have dom1: "dom (srv_windows (m_conn s1)) = dom (srv_windows (m_conn s))"
    by (simp add: s1_def t_def dom_resetFocus dom_unmap_window)
  have r: "r = s1\<lparr>m_conn := m_conn r, m_windowList := m_windowList r\<rparr>"
    unfolding r_def by (rule restore_loop_frame)
  have setr: "set (m_windowList r) = set (m_windowList s1) \<union> set (m_minimizedWindows s1)"
    unfolding r_def by (rule restore_loop_set)
  have distr: "distinct (m_windowList r)"
    unfolding r_def using managed by (intro restore_loop_distinct) (simp add: list1)
  have nonempty: "m_windowList r \<noteq> []"
    using setr min1 by auto
  have listu: "m_windowList u = m_windowList r" and minu: "m_minimizedWindows u = []"
    by (simp_all add: u_def)
  have restore: "key_restore s1 = s2"
    using nonempty
    by (simp add: key_restore_def Let_def s2_def l_def u_def r_def)
  have keysym1: "getKeysym s1 code st = getKeysym s code st" for code st
    by (simp add: getKeysym_def keys1)
  have press_n: "handleKeyPress s1 evn = Running s2"
    using handleKeyPress_chord [OF flags1 keyn(1)] keyn(2) restore
    by (simp add: key_chord_def keysym1)
  have s2: "s2 = u\<lparr>m_conn := m_conn s2\<rparr>"
    unfolding s2_def by (rule focusWindow_frame)
  have list2: "m_windowList s2 = m_windowList r"
    by (subst s2) (simp add: listu)
  have min2: "m_minimizedWindows s2 = []"
    by (subst s2) (simp add: minu)
  have flagsr: "\<not> m_isExitConfirmationActive r" "\<not> m_isRunnerActive r" "\<not> m_isHelpActive r"
    and keysr: "m_keysyms r = m_keysyms s"
    using flags1 keys1 by (subst r, simp)+
  have flags2: "\<not> m_isExitConfirmationActive s2" "\<not> m_isRunnerActive s2" "\<not> m_isHelpActive s2"
    and keys2: "m_keysyms s2 = m_keysyms s"
    using flagsr keysr by (subst s2, simp add: u_def)+
  have once: "\<forall>w \<in> set (m_minimizedWindows s1). count_list (m_windowList s2) w = 1"
    using distr setr by (simp add: list2 count_list_distinct)
  have lastin: "last (m_windowList s2) \<in> set (m_minimizedWindows s1)"
    unfolding list2 r_def
    using gone by (intro restore_loop_last) (auto simp add: min1)
  have lastfoc: "foc \<notin> set (m_minimizedWindows s) \<longrightarrow> last (m_windowList s2) = foc"
  proof
    assume fresh: "foc \<notin> set (m_minimizedWindows s)"
    define q where "q = restore_loop (m_minimizedWindows s) s1"
    have "foc \<notin> set (m_windowList q)"
      using gone fresh by (simp add: q_def restore_loop_set)
    then have "m_windowList (restore_loop [foc] q) = m_windowList q @ [foc]"
      by (simp add: Let_def)
    then have "m_windowList r = m_windowList q @ [foc]"
      by (simp add: r_def q_def min1 restore_loop_append)
    then show "last (m_windowList s2) = foc"
      by (simp add: list2)
  qed
  have domu: "dom (srv_windows (m_conn u)) = dom (srv_windows (m_conn s))"
    using restore_loop_dom [of "m_minimizedWindows s1" s1] dom1 by (simp add: u_def r_def)
  have last2: "last (m_windowList s2) = l"
    by (simp add: list2 l_def)
  have focus: "last (m_windowList s2) \<noteq> XCB_NONE \<and>
        srv_windows (m_conn s) (last (m_windowList s2)) \<noteq> None \<longrightarrow>
          srv_focus (m_conn s2) = last (m_windowList s2)"
    unfolding last2
  proof
    assume a: "l \<noteq> XCB_NONE \<and> srv_windows (m_conn s) l \<noteq> None"
    then have "l \<in> dom (srv_windows (m_conn u))"
      unfolding domu by blast
    then have "srv_windows (m_conn u) l \<noteq> None"
      by blast
    with a show "srv_focus (m_conn s2) = l"
      unfolding s2_def by (intro focusWindow_focus) simp_all
  qed
  have keysym2: "getKeysym s2 code st = getKeysym s code st" for code st
    by (simp add: getKeysym_def keys2)
  have again: "key_restore s2 = s2"
  proof -
    have upd: "s2\<lparr>m_minimizedWindows := []\<rparr> = s2"
      by (subst (1 2) s2) (simp add: u_def)
    have fw: "focusWindow s2 l = s2"
      unfolding s2_def by (rule focusWindow_idem)
    have "key_restore s2 =
            (if m_windowList s2 \<noteq> [] then focusWindow s2 (last (m_windowList s2)) else s2)"
      by (simp only: key_restore_def Let_def min2 restore_loop.simps upd)
    also have "\<dots> = focusWindow s2 l"
      using nonempty by (simp add: list2 l_def)
    finally show ?thesis
      by (simp only: fw)
  qed
  have press_n2: "handleKeyPress s2 evn = Running s2"
    using handleKeyPress_chord [OF flags2 keyn(1)] keyn(2) again
    by (simp add: key_chord_def keysym2)
  have set2: "set (m_windowList s2) = set (m_windowList s1) \<union> set (m_minimizedWindows s1)"
    using setr by (simp add: list2)
  have dist2: "distinct (m_windowList s2)"
    using distr by (simp add: list2)
  show ?thesis
    using press_m list1 gone min1 press_n dist2 set2 once min2 lastin lastfoc focus press_n2
    by blast
qed


text \<open>
  C9 in the concrete session, after both clients have been mapped: the second client is
  minimized and restored, and restore-all is run once more.
\<close>

theorem C9_minimize_restore_round_trip_witness:
  "\<not> m_isExitConfirmationActive demo_mapped_AB \<and> \<not> m_isRunnerActive demo_mapped_AB \<and>
   \<not> m_isHelpActive demo_mapped_AB \<and>
   getKeysym demo_mapped_AB 58 XCB_MOD_MASK_1 = XK_m \<and>
   getKeysym demo_mapped_AB 57 XCB_MOD_MASK_1 = XK_n \<and>
   getFocusedWindow demo_mapped_AB = win_B \<and>
   m_windowList demo_mapped_AB = [win_A, win_B] \<and>
   m_minimizedWindows demo_mapped_AB = [] \<and>
   srv_windows (m_conn demo_mapped_AB) win_B \<noteq> None \<and>
   (\<exists>s1 s2.
      handle_event demo_mapped_AB (key 58 XCB_MOD_MASK_1) = Running s1 \<and>
      runEventLoop demo_mapped_AB
        [key 58 XCB_MOD_MASK_1, key 57 XCB_MOD_MASK_1, key 57 XCB_MOD_MASK_1] = Running s2 \<and>
      runEventLoop demo_mapped_AB [key 58 XCB_MOD_MASK_1, key 57 XCB_MOD_MASK_1] = Running s2 \<and>
      m_windowList s1 = [win_A] \<and> m_minimizedWindows s1 = [win_B] \<and>
      distinct (m_windowList s2) \<and> set (m_windowList s2) = {win_A, win_B} \<and>
      count_list (m_windowList s2) win_B = 1 \<and>
      m_minimizedWindows s2 = [] \<and> last (m_windowList s2) = win_B \<and>
      srv_focus (m_conn s2) = win_B)"
proof -
  have "(case Running demo_mapped_AB of
           Exited n \<Rightarrow> False
         | Running s0 \<Rightarrow>
     \<not> m_isExitConfirmationActive s0 \<and> \<not> m_isRunnerActive s0 \<and>
     \<not> m_isHelpActive s0 \<and> m_keysyms s0 = us_keysyms \<and>
     getFocusedWindow s0 = win_B \<and>
     m_runnerWindow s0 = XCB_NONE \<and> m_exitConfirmationWindow s0 = XCB_NONE \<and>
     m_helpWindow s0 = XCB_NONE \<and>
     m_windowList s0 = [win_A, win_B] \<and>
     m_minimizedWindows s0 = [] \<and>
     srv_windows (m_conn s0) win_B \<noteq> None)"
    by (simp add: demo_mapped_AB_def demo_defs server_defs handleMapRequest_def focusWindow_def
        getWindowGeometry_def getFocusedWindow_def Let_def)
  then have fields:
    "\<not> m_isExitConfirmationActive demo_mapped_AB \<and> \<not> m_isRunnerActive demo_mapped_AB \<and>
     \<not> m_isHelpActive demo_mapped_AB \<and> m_keysyms demo_mapped_AB = us_keysyms \<and>
     getFocusedWindow demo_mapped_AB = win_B \<and>
     m_runnerWindow demo_mapped_AB = XCB_NONE \<and> m_exitConfirmationWindow demo_mapped_AB = XCB_NONE \<and>
     m_helpWindow demo_mapped_AB = XCB_NONE \<and>
     m_windowList demo_mapped_AB = [win_A, win_B] \<and>
     m_minimizedWindows demo_mapped_AB = [] \<and>
     srv_windows (m_conn demo_mapped_AB) win_B \<noteq> None"
    by simp
  have km: "getKeysym demo_mapped_AB 58 XCB_MOD_MASK_1 = XK_m"
    and kn: "getKeysym demo_mapped_AB 57 XCB_MOD_MASK_1 = XK_n"
    using fields by (simp_all add: getKeysym_def us_keysyms_def)
  have alt: "(XCB_MOD_MASK_1 :: 16 word) AND XCB_MOD_MASK_1 \<noteq> 0"
    by simp
  have
    "\<exists>s1 s2.
       handleKeyPress demo_mapped_AB \<lparr>kp_detail = 58, kp_state = XCB_MOD_MASK_1\<rparr> = Running s1 \<and>
       m_windowList s1 = remove1 win_B (m_windowList demo_mapped_AB) \<and>
       win_B \<notin> set (m_windowList s1) \<and>
       m_minimizedWindows s1 = m_minimizedWindows demo_mapped_AB @ [win_B] \<and>
       handleKeyPress s1 \<lparr>kp_detail = 57, kp_state = XCB_MOD_MASK_1\<rparr> = Running s2 \<and>
       distinct (m_windowList s2) \<and>
       set (m_windowList s2) = set (m_windowList s1) \<union> set (m_minimizedWindows s1) \<and>
       (\<forall>w \<in> set (m_minimizedWindows s1). count_list (m_windowList s2) w = 1) \<and>
       m_minimizedWindows s2 = [] \<and>
       last (m_windowList s2) \<in> set (m_minimizedWindows s1) \<and>
       (win_B \<notin> set (m_minimizedWindows demo_mapped_AB) \<longrightarrow> last (m_windowList s2) = win_B) \<and>
       (last (m_windowList s2) \<noteq> XCB_NONE \<and>
        srv_windows (m_conn demo_mapped_AB) (last (m_windowList s2)) \<noteq> None \<longrightarrow>
          srv_focus (m_conn s2) = last (m_windowList s2)) \<and>
       handleKeyPress s2 \<lparr>kp_detail = 57, kp_state = XCB_MOD_MASK_1\<rparr> = Running s2"
    using fields km kn alt
    by (intro C9_minimize_restore_round_trip) simp_all
  then obtain s1 s2 where
    a: "handleKeyPress demo_mapped_AB \<lparr>kp_detail = 58, kp_state = XCB_MOD_MASK_1\<rparr> = Running s1"
    and b: "m_windowList s1 = remove1 win_B (m_windowList demo_mapped_AB)"
    and c: "m_minimizedWindows s1 = m_minimizedWindows demo_mapped_AB @ [win_B]"
    and d: "handleKeyPress s1 \<lparr>kp_detail = 57, kp_state = XCB_MOD_MASK_1\<rparr> = Running s2"
    and e: "distinct (m_windowList s2)"
    and f: "set (m_windowList s2) = set (m_windowList s1) \<union> set (m_minimizedWindows s1)"
    and g: "\<forall>w \<in> set (m_minimizedWindows s1). count_list (m_windowList s2) w = 1"
    and h: "m_minimizedWindows s2 = []"
    and i: "win_B \<notin> set (m_minimizedWindows demo_mapped_AB) \<longrightarrow> last (m_windowList s2) = win_B"
    and j: "last (m_windowList s2) \<noteq> XCB_NONE \<and>
        srv_windows (m_conn demo_mapped_AB) (last (m_windowList s2)) \<noteq> None \<longrightarrow>
          srv_focus (m_conn s2) = last (m_windowList s2)"
    and k: "handleKeyPress s2 \<lparr>kp_detail = 57, kp_state = XCB_MOD_MASK_1\<rparr> = Running s2"
    by blast
  have l1: "m_windowList s1 = [win_A]" and m1: "m_minimizedWindows s1 = [win_B]"
    using b c fields by simp_all
  have lastB: "last (m_windowList s2) = win_B"
    using i fields by simp
  have focusB: "srv_focus (m_conn s2) = win_B"
    using j fields by (simp add: lastB)
  have ev1: "handle_event demo_mapped_AB (key 58 XCB_MOD_MASK_1) = Running s1"
    using a by (simp add: key_def)
  have run2: "runEventLoop demo_mapped_AB [key 58 XCB_MOD_MASK_1, key 57 XCB_MOD_MASK_1] = Running s2"
    using a d by (simp add: key_def)
  have run3: "runEventLoop demo_mapped_AB
        [key 58 XCB_MOD_MASK_1, key 57 XCB_MOD_MASK_1, key 57 XCB_MOD_MASK_1] = Running s2"
    using a d k by (simp add: key_def)
  have set2: "set (m_windowList s2) = {win_A, win_B}"
    using f l1 m1 by auto
  have cnt: "count_list (m_windowList s2) win_B = 1"
    using g m1 by simp
  have ex: "\<exists>s1 s2.
      handle_event demo_mapped_AB (key 58 XCB_MOD_MASK_1) = Running s1 \<and>
      runEventLoop demo_mapped_AB
        [key 58 XCB_MOD_MASK_1, key 57 XCB_MOD_MASK_1, key 57 XCB_MOD_MASK_1] = Running s2 \<and>
      runEventLoop demo_mapped_AB [key 58 XCB_MOD_MASK_1, key 57 XCB_MOD_MASK_1] = Running s2 \<and>
      m_windowList s1 = [win_A] \<and> m_minimizedWindows s1 = [win_B] \<and>
      distinct (m_windowList s2) \<and> set (m_windowList s2) = {win_A, win_B} \<and>
      count_list (m_windowList s2) win_B = 1 \<and>
      m_minimizedWindows s2 = [] \<and> last (m_windowList s2) = win_B \<and>
      srv_focus (m_conn s2) = win_B"
    by (intro exI [of _ s1] exI [of _ s2] conjI ev1 run2 run3 l1 m1 e set2 cnt h lastB focusB)
  show ?thesis
    by (intro conjI ex km kn) (simp_all add: fields)
qed

subsection \<open>Dialog exclusivity\<close>
























lemma activeFlag_flags:
  "dialog_flags s' = dialog_flags s \<Longrightarrow> activeFlag d s' = activeFlag d s"
  by (cases d) (simp_all add: dialog_flags_def)





lemma createPopUpWindow_active: "activeFlag d s \<Longrightarrow> createPopUpWindow s d w h = s"
  by (simp add: createPopUpWindow_def)





















end
